theory Spec2Isabelle
  imports Complex_Main "HOL-Library.Multiset"
begin

section \<open>Numbers\<close>

text \<open>
  Python's \<open>float\<close> and JavaScript's \<open>number\<close> are IEEE 754 binary64 numbers
  (doubles). A double is either a finite number or one of the three special values. A
  finite double is modelled by the real number it denotes; the two zeros are not told
  apart. Arithmetic on doubles rounds its exact result to the nearest double, as defined
  below.
\<close>

datatype float64 = Finite real | PosInf | NegInf | NaN

fun is_finite :: "float64 \<Rightarrow> bool" where
  "is_finite (Finite x) = True"
| "is_finite PosInf = False"
| "is_finite NegInf = False"
| "is_finite NaN = False"

subsection \<open>Rounding to the nearest double\<close>

text \<open>The integer nearest to \<open>y\<close>; of two equally near integers, the even one.\<close>

definition round_even :: "real \<Rightarrow> int" where
  "round_even y =
     (let f = \<lfloor>y\<rfloor>; r = y - of_int f
      in if r < 1/2 then f else if 1/2 < r then f + 1 else if even f then f else f + 1)"

text \<open>
  The doubles near \<open>x\<close> are the multiples of \<open>2 powi k\<close> for the least \<open>k \<ge> -1074\<close> with
  \<open>\<bar>x\<bar> < 2 powi (k + 53)\<close>: a significand has 53 bits, and \<open>2 powi (-1074)\<close> is the
  smallest positive double. \<open>quantum n k a\<close> searches upwards from \<open>k\<close>, at most \<open>n\<close> steps;
  2046 steps from \<open>-1074\<close> reach 972, where every result overflows.
\<close>

fun quantum :: "nat \<Rightarrow> int \<Rightarrow> real \<Rightarrow> int" where
  "quantum 0 k a = k"
| "quantum (Suc n) k a = (if a < 2 powi (k + 53) then k else quantum n (k + 1) a)"

definition ulp_exponent :: "real \<Rightarrow> int" where
  "ulp_exponent x = quantum 2046 (-1074) \<bar>x\<bar>"

text \<open>
  Round to nearest, ties to even: the exact result \<open>x\<close> is rounded to a multiple of its
  unit in the last place; a rounded magnitude of \<open>2 powi 1024\<close> or more overflows to the
  infinity of the sign of \<open>x\<close>.
\<close>

definition round64 :: "real \<Rightarrow> float64" where
  "round64 x =
     (let k = ulp_exponent x;
          r = of_int (round_even (x / 2 powi k)) * 2 powi k
      in if 2 powi 1024 \<le> \<bar>r\<bar> then (if 0 < x then PosInf else NegInf) else Finite r)"

text \<open>A real number is a double when rounding leaves it as it is.\<close>

definition is_double :: "real \<Rightarrow> bool" where
  "is_double x \<longleftrightarrow> round64 x = Finite x"

subsection \<open>Subtraction, absolute value and multiplication of doubles\<close>

fun fsub :: "float64 \<Rightarrow> float64 \<Rightarrow> float64" where
  "fsub (Finite a) (Finite b) = round64 (a - b)"
| "fsub NaN y = NaN"
| "fsub x NaN = NaN"
| "fsub PosInf PosInf = NaN"
| "fsub NegInf NegInf = NaN"
| "fsub PosInf y = PosInf"
| "fsub NegInf y = NegInf"
| "fsub (Finite a) PosInf = NegInf"
| "fsub (Finite a) NegInf = PosInf"

fun fabs :: "float64 \<Rightarrow> float64" where
  "fabs (Finite a) = Finite \<bar>a\<bar>"
| "fabs PosInf = PosInf"
| "fabs NegInf = PosInf"
| "fabs NaN = NaN"

fun fmul :: "float64 \<Rightarrow> float64 \<Rightarrow> float64" where
  "fmul (Finite a) (Finite b) = round64 (a * b)"
| "fmul NaN y = NaN"
| "fmul x NaN = NaN"
| "fmul PosInf (Finite b) = (if b = 0 then NaN else if 0 < b then PosInf else NegInf)"
| "fmul NegInf (Finite b) = (if b = 0 then NaN else if 0 < b then NegInf else PosInf)"
| "fmul (Finite a) PosInf = (if a = 0 then NaN else if 0 < a then PosInf else NegInf)"
| "fmul (Finite a) NegInf = (if a = 0 then NaN else if 0 < a then NegInf else PosInf)"
| "fmul PosInf PosInf = PosInf"
| "fmul PosInf NegInf = NegInf"
| "fmul NegInf PosInf = NegInf"
| "fmul NegInf NegInf = PosInf"

section \<open>Data model\<close>

text \<open>
  \<open>PredictionRequest\<close> has the same thirteen fields in \<open>backend/app/models.py\<close> and
  in \<open>frontend/src/types/index.ts\<close>. The backend types \<open>date\<close>, \<open>landcover\<close> and
  \<open>dayofyear\<close> as \<open>int\<close> and the other ten as \<open>float\<close>; the frontend types all thirteen
  as \<open>number\<close>. The record is therefore parametric in the two field types.
\<close>

record ('f, 'i) PredictionRequest =
  lat :: 'f
  lon :: 'f
  date :: 'i
  elevation :: 'f
  slope :: 'f
  landcover :: 'i
  precip_1d :: 'f
  precip_3d :: 'f
  precip_7d :: 'f
  precip_14d :: 'f
  dis_last :: 'f
  dis_trend_3 :: 'f
  dayofyear :: 'i

type_synonym py_request = "(float64, int) PredictionRequest"

datatype RiskLevel = Low | Medium | High

record PredictionResponse =
  flood_probability :: real
  risk_level :: RiskLevel
  is_flood_predicted :: bool
  confidence :: float64

section \<open>Feature assembler (\<open>predictor.py\<close>, \<open>_prepare_input\<close>)\<close>

text \<open>
  Modelled from the spec: \<open>ModelMetadata.feature_names\<close> is read from
  \<open>models/model_meta.json\<close>, which is not among the sources. The spec and the backend
  README give thirteen names, in this order. Every function below takes the list of
  column names as a parameter; this constant is the documented instance.
\<close>

definition feature_names :: "string list" where
  "feature_names =
     [''lat'', ''lon'', ''date'', ''elevation'', ''slope'', ''landcover'',
      ''precip_1d'', ''precip_3d'', ''precip_7d'', ''precip_14d'',
      ''dis_last'', ''dis_trend_3'', ''dayofyear'']"

text \<open>
  The dictionary literal \<open>data\<close> of \<open>_prepare_input\<close>, as the list of its items in the
  order of the source. An \<open>int\<close> field is the number it denotes.
\<close>

definition request_data :: "py_request \<Rightarrow> (string \<times> float64) list" where
  "request_data request =
     [(''lat'', lat request),
      (''lon'', lon request),
      (''date'', Finite (of_int (date request))),
      (''elevation'', elevation request),
      (''slope'', slope request),
      (''landcover'', Finite (of_int (landcover request))),
      (''precip_1d'', precip_1d request),
      (''precip_3d'', precip_3d request),
      (''precip_7d'', precip_7d request),
      (''precip_14d'', precip_14d request),
      (''dis_last'', dis_last request),
      (''dis_trend_3'', dis_trend_3 request),
      (''dayofyear'', Finite (of_int (dayofyear request)))]"

text \<open>
  \<open>pd.DataFrame([data], columns=columns)\<close>: one row, one cell per name of \<open>columns\<close>, in
  that order; a name that is no key of \<open>data\<close> gives a \<open>NaN\<close> cell.
\<close>

definition DataFrame :: "(string \<times> float64) list \<Rightarrow> string list \<Rightarrow> float64 list" where
  "DataFrame data columns =
     map (\<lambda>c. case map_of data c of Some v \<Rightarrow> v | None \<Rightarrow> NaN) columns"

text \<open>\<open>df.replace([np.inf, -np.inf], np.nan)\<close>\<close>

definition replace_inf :: "float64 list \<Rightarrow> float64 list" where
  "replace_inf df = map (\<lambda>v. if v = PosInf \<or> v = NegInf then NaN else v) df"

text \<open>\<open>df.fillna(x)\<close>\<close>

definition fillna :: "real \<Rightarrow> float64 list \<Rightarrow> float64 list" where
  "fillna x df = map (\<lambda>v. if v = NaN then Finite x else v) df"

definition prepare_input :: "string list \<Rightarrow> py_request \<Rightarrow> float64 list" where
  "prepare_input columns request =
     (let data = request_data request;
          df = DataFrame data columns;
          df = replace_inf df;
          df = fillna 0 df
      in df)"

text \<open>A request is fully populated when no float field holds a missing-value marker.\<close>

definition fully_populated :: "py_request \<Rightarrow> bool" where
  "fully_populated request \<longleftrightarrow>
     is_finite (lat request) \<and> is_finite (lon request) \<and> is_finite (elevation request) \<and>
     is_finite (slope request) \<and> is_finite (precip_1d request) \<and>
     is_finite (precip_3d request) \<and> is_finite (precip_7d request) \<and>
     is_finite (precip_14d request) \<and> is_finite (dis_last request) \<and>
     is_finite (dis_trend_3 request)"

section \<open>Risk classifier and scorer (\<open>predictor.py\<close>)\<close>

definition calculate_risk_level :: "real \<Rightarrow> RiskLevel" where
  "calculate_risk_level probability =
     (if probability < 0.3 then Low
      else if probability < 0.7 then Medium
      else High)"

text \<open>
  \<open>predict\<close>. The loaded classifier is the parameter \<open>predict_proba\<close>; for the one-row
  frame it returns the pair \<open>(p_no_flood, p_flood)\<close> that the source reads as
  \<open>probabilities[0]\<close>, so \<open>probabilities[0][1]\<close> is the second component. The
  confidence \<open>abs(flood_probability - 0.5) * 2\<close> is computed in doubles: the subtraction
  and the multiplication round. A comparison does not round. The thresholds are the real
  numbers 0.3, 0.5 and 0.7; 0.5 is a double, and the doubles Python reads 0.3 and 0.7 as
  are less than \<open>2^-54\<close> below them, which tells only for a probability that is exactly
  one of these two doubles.
\<close>

definition predict ::
  "(float64 list \<Rightarrow> real \<times> real) \<Rightarrow> string list \<Rightarrow> py_request \<Rightarrow> PredictionResponse" where
  "predict predict_proba columns request =
     (let input_df = prepare_input columns request;
          probabilities = predict_proba input_df;
          fp = snd probabilities;
          conf = fmul (fabs (fsub (Finite fp) (Finite 0.5))) (Finite 2);
          level = calculate_risk_level fp
      in \<lparr>flood_probability = fp,
          risk_level = level,
          is_flood_predicted = (fp \<ge> 0.5),
          confidence = conf\<rparr>)"

text \<open>\<open>getGaugeColor\<close> of the frontend's \<open>RiskGauge\<close> component.\<close>

definition getGaugeColor :: "real \<Rightarrow> string" where
  "getGaugeColor probability =
     (if probability < 0.3 then ''var(--risk-low)''
      else if probability < 0.6 then ''var(--risk-medium)''
      else ''var(--risk-high)'')"

section \<open>Endpoint \<open>POST /predict\<close> (\<open>main.py\<close>, \<open>predict_flood\<close>)\<close>

text \<open>
  Python exceptions as values. FastAPI's \<open>HTTPException\<close> derives from \<open>Exception\<close>,
  as does whatever the predictor raises; \<open>except Exception\<close> catches both.
\<close>

datatype exn = HTTPException nat string | OtherException string

text \<open>
  The handler. \<open>str\<close> is Python's \<open>str(e)\<close>, \<open>predictor_predict\<close> is the call
  \<open>predictor.predict(request)\<close>, which may raise. The body of \<open>try\<close> is evaluated first;
  an exception it raises, of either kind, is replaced by \<open>HTTPException(500, str(e))\<close>.
  Logging is left out.
\<close>

definition predict_flood ::
  "(exn \<Rightarrow> string) \<Rightarrow> bool \<Rightarrow> (py_request \<Rightarrow> exn + PredictionResponse) \<Rightarrow> py_request
     \<Rightarrow> exn + PredictionResponse" where
  "predict_flood str model_loaded predictor_predict request =
     (case (if \<not> model_loaded then Inl (HTTPException 503 ''Model not loaded'')
            else predictor_predict request)
      of Inl e \<Rightarrow> Inl (HTTPException 500 (str e))
       | Inr prediction \<Rightarrow> Inr prediction)"

text \<open>The status of the HTTP response FastAPI builds from the handler's outcome.\<close>

fun status_code :: "exn + PredictionResponse \<Rightarrow> nat" where
  "status_code (Inr prediction) = 200"
| "status_code (Inl (HTTPException code detail)) = code"
| "status_code (Inl (OtherException msg)) = 500"

section \<open>Weather aggregation service\<close>

text \<open>
  Modelled from the spec: the live aggregation of the weather service
  (\<open>backend/app/weather.py\<close>), which is not among the sources. The input is the list of
  daily precipitation samples, most recent last. A window of \<open>n\<close> days is the sum over the
  trailing \<open>n\<close> days, the days before the available history counting as zero;
  \<open>precip_1d\<close> is the last day's value. The result is the object that
  \<open>GET /weather/live\<close> returns, as the list of its members.
\<close>

definition pad_history :: "nat \<Rightarrow> real list \<Rightarrow> real list" where
  "pad_history n samples = replicate (n - length samples) 0 @ samples"

definition trailing_sum :: "nat \<Rightarrow> real list \<Rightarrow> real" where
  "trailing_sum n samples =
     (let days = pad_history n samples in sum_list (drop (length days - n) days))"

definition live_aggregation :: "real \<Rightarrow> real list \<Rightarrow> (string \<times> real) list" where
  "live_aggregation elev samples =
     [(''elevation'', elev),
      (''precip_1d'', last (pad_history 1 samples)),
      (''precip_3d'', trailing_sum 3 samples),
      (''precip_7d'', trailing_sum 7 samples),
      (''precip_14d'', trailing_sum 14 samples)]"

text \<open>
  Modelled from the spec: the historical series of the weather service
  (\<open>backend/app/weather.py\<close>), which is not among the sources. A calendar day is its day
  number; the provider is a partial map from days to samples. The series has one slot for
  each of the 30 consecutive days ending today, oldest first; a day the provider has no
  sample for keeps its slot, flagged \<open>None\<close>, and is not interpolated.
\<close>

record WeatherSample =
  sample_precipitation :: real
  sample_temperature :: real

definition history_days :: "int \<Rightarrow> int list" where
  "history_days today = map (\<lambda>k. today - 29 + int k) [0..<30]"

definition historical_series ::
  "(int \<rightharpoonup> WeatherSample) \<Rightarrow> int \<Rightarrow> (int \<times> WeatherSample option) list" where
  "historical_series provider today = map (\<lambda>d. (d, provider d)) (history_days today)"

text \<open>The three arrays of the response of \<open>GET /weather/history\<close>.\<close>

definition history_dates :: "(int \<rightharpoonup> WeatherSample) \<Rightarrow> int \<Rightarrow> int list" where
  "history_dates provider today = map fst (historical_series provider today)"

definition history_precipitation :: "(int \<rightharpoonup> WeatherSample) \<Rightarrow> int \<Rightarrow> real option list" where
  "history_precipitation provider today =
     map (\<lambda>e. map_option sample_precipitation (snd e)) (historical_series provider today)"

definition history_temperature :: "(int \<rightharpoonup> WeatherSample) \<Rightarrow> int \<Rightarrow> real option list" where
  "history_temperature provider today =
     map (\<lambda>e. map_option sample_temperature (snd e)) (historical_series provider today)"

section \<open>Prediction form (\<open>PredictionForm.tsx\<close>)\<close>

text \<open>
  The JavaScript values a JSON response or a form field can hold, and their truthiness:
  \<open>undefined\<close>, \<open>null\<close>, \<open>false\<close>, \<open>0\<close>, \<open>NaN\<close> and the empty string are falsy.
\<close>

datatype jsvalue = Undefined | Null | JBool bool | JNumber float64 | JString string

fun truthy :: "jsvalue \<Rightarrow> bool" where
  "truthy Undefined = False"
| "truthy Null = False"
| "truthy (JBool b) = b"
| "truthy (JNumber (Finite x)) = (x \<noteq> 0)"
| "truthy (JNumber PosInf) = True"
| "truthy (JNumber NegInf) = True"
| "truthy (JNumber NaN) = False"
| "truthy (JString s) = (s \<noteq> [])"

text \<open>\<open>a || b\<close>\<close>

definition js_or :: "jsvalue \<Rightarrow> jsvalue \<Rightarrow> jsvalue" where
  "js_or a b = (if truthy a then a else b)"

text \<open>Reading a member of a JSON object: an absent member reads as \<open>undefined\<close>.\<close>

definition member :: "(string \<rightharpoonup> jsvalue) \<Rightarrow> string \<Rightarrow> jsvalue" where
  "member obj k = (case obj k of None \<Rightarrow> Undefined | Some v \<Rightarrow> v)"

type_synonym form_data = "(jsvalue, jsvalue) PredictionRequest"

text \<open>The component state that \<open>fetchLiveData\<close> touches, and the alerts it has shown.\<close>

record form_state =
  formData :: form_data
  isFetchingWeather :: bool
  alerts :: "string list"

datatype fetch_error = RequestFailed

text \<open>
  \<open>fetchLiveData\<close>, from the state before the call to the state after it. \<open>axios_get\<close> is
  the request to \<open>/weather/live\<close> for the form's coordinates: it fails (\<open>Inl\<close>) or yields
  the JSON object \<open>response.data\<close>. On failure the \<open>catch\<close> block alerts and the form data
  stay as they were; \<open>finally\<close> clears the flag on both paths.
\<close>

definition fetchLiveData ::
  "(jsvalue \<Rightarrow> jsvalue \<Rightarrow> fetch_error + (string \<rightharpoonup> jsvalue)) \<Rightarrow> form_state \<Rightarrow> form_state" where
  "fetchLiveData axios_get st =
     (case axios_get (lat (formData st)) (lon (formData st)) of
        Inr data \<Rightarrow>
          st\<lparr>formData := (formData st)
               \<lparr>elevation := member data ''elevation'',
                precip_1d := member data ''precip_1d'',
                precip_3d := member data ''precip_3d'',
                precip_7d := member data ''precip_7d'',
                precip_14d := member data ''precip_14d'',
                slope := js_or (member data ''slope'') (slope (formData st)),
                landcover := js_or (member data ''landcover'') (landcover (formData st)),
                dis_last := js_or (member data ''dis_last'') (dis_last (formData st)),
                dis_trend_3 := js_or (member data ''dis_trend_3'') (dis_trend_3 (formData st))\<rparr>,
             isFetchingWeather := False\<rparr>
      | Inl error \<Rightarrow>
          st\<lparr>alerts := alerts st @ [''Failed to fetch live weather data. Please try again.''],
             isFetchingWeather := False\<rparr>)"

text \<open>
  The entry the historical chart hands to the form. Its field \<open>date\<close> is named
  \<open>entry_date\<close> here, \<open>date\<close> being a field of the request.
\<close>

record HistoryEntry =
  entry_date :: string
  precipitation :: jsvalue
  temperature :: jsvalue

text \<open>
  The two readings of JavaScript's \<open>Date\<close> that the handler takes, in milliseconds:
  \<open>getTime d\<close> is \<open>new Date(d).getTime()\<close> and \<open>yearStart d\<close> is
  \<open>new Date(new Date(d).getFullYear(), 0, 0).getTime()\<close>; \<open>None\<close> is an invalid date,
  whose time is \<open>NaN\<close>. Both depend on the browser's time zone and are parameters.
\<close>

record DateApi =
  getTime :: "string \<Rightarrow> int option"
  yearStart :: "string \<Rightarrow> int option"

definition oneDay :: int where
  "oneDay = 1000 * 60 * 60 * 24"

text \<open>\<open>Math.floor(diff / oneDay)\<close>; arithmetic with \<open>NaN\<close> gives \<open>NaN\<close>.\<close>

definition dayOfYear :: "DateApi \<Rightarrow> string \<Rightarrow> jsvalue" where
  "dayOfYear api d =
     (case getTime api d of
        None \<Rightarrow> JNumber NaN
      | Some t \<Rightarrow>
          (case yearStart api d of
             None \<Rightarrow> JNumber NaN
           | Some start \<Rightarrow> JNumber (Finite (of_int ((t - start) div oneDay)))))"

text \<open>\<open>handleHistoricalDateSelect\<close>: the updater it passes to \<open>setFormData\<close>.\<close>

definition handleHistoricalDateSelect :: "DateApi \<Rightarrow> HistoryEntry \<Rightarrow> form_data \<Rightarrow> form_data" where
  "handleHistoricalDateSelect api entry prev =
     prev\<lparr>precip_1d := precipitation entry,
          precip_3d := precipitation entry,
          precip_7d := precipitation entry,
          precip_14d := precipitation entry,
          dayofyear := dayOfYear api (entry_date entry),
          date := dayOfYear api (entry_date entry)\<rparr>"

section \<open>Example inputs\<close>

text \<open>The request of the spec's end-to-end example.\<close>

definition example_request :: py_request where
  "example_request =
     \<lparr>lat = Finite 23.8103, lon = Finite 90.4125, date = 180, elevation = Finite 10.5,
      slope = Finite 0.5, landcover = 11, precip_1d = Finite 50, precip_3d = Finite 120,
      precip_7d = Finite 200, precip_14d = Finite 300, dis_last = Finite 1500,
      dis_trend_3 = Finite 100, dayofyear = 180\<rparr>"

text \<open>A request with a \<open>NaN\<close>, a \<open>+inf\<close> and a \<open>-inf\<close> field.\<close>

definition gappy_request :: py_request where
  "gappy_request =
     \<lparr>lat = NaN, lon = Finite 90.4125, date = 180, elevation = Finite (-3),
      slope = Finite 0.5, landcover = 11, precip_1d = PosInf, precip_3d = Finite 120,
      precip_7d = Finite 200, precip_14d = Finite 300, dis_last = Finite 1500,
      dis_trend_3 = NegInf, dayofyear = 180\<rparr>"

text \<open>A provider that has a sample for day 95 only.\<close>

definition sparse_provider :: "int \<rightharpoonup> WeatherSample" where
  "sparse_provider = [95 \<mapsto> \<lparr>sample_precipitation = 12, sample_temperature = 31\<rparr>]"

text \<open>A classifier that answers the flood probability \<open>p\<close> for every row.\<close>

definition fixed_classifier :: "real \<Rightarrow> float64 list \<Rightarrow> real \<times> real" where
  "fixed_classifier p df = (1 - p, p)"

text \<open>The doubles nearest to 0.1, 0.3 and 0.7: what Python reads these literals as.\<close>

definition double_0_1 :: real where
  "double_0_1 = 3602879701896397 / 2 ^ 55"

definition double_0_3 :: real where
  "double_0_3 = 5404319552844595 / 2 ^ 54"

definition double_0_7 :: real where
  "double_0_7 = 3152519739159347 / 2 ^ 52"

text \<open>A form, as the prediction page holds it.\<close>

definition example_form :: form_data where
  "example_form =
     \<lparr>lat = JNumber (Finite 23.8103), lon = JNumber (Finite 90.4125), date = JNumber (Finite 3),
      elevation = JNumber (Finite 10.5), slope = JNumber (Finite 0.5),
      landcover = JNumber (Finite 11), precip_1d = JNumber (Finite 50),
      precip_3d = JNumber (Finite 120), precip_7d = JNumber (Finite 200),
      precip_14d = JNumber (Finite 300), dis_last = JNumber (Finite 1500),
      dis_trend_3 = JNumber (Finite 100), dayofyear = JNumber (Finite 3)\<rparr>"

definition example_state :: form_state where
  "example_state = \<lparr>formData = example_form, isFetchingWeather = False, alerts = []\<rparr>"

text \<open>
  The readings of \<open>Date\<close> for the date string \<open>2024-03-01\<close>, which JavaScript reads as
  midnight UTC, in a browser six hours ahead of UTC and in one five hours behind; any
  other string is an invalid date. Local midnight of 31 December 2023 is the start.
\<close>

definition dhaka_dates :: DateApi where
  "dhaka_dates =
     \<lparr>getTime = (\<lambda>d. if d = ''2024-03-01'' then Some 1709251200000 else None),
      yearStart = (\<lambda>d. if d = ''2024-03-01'' then Some 1703959200000 else None)\<rparr>"

definition new_york_dates :: DateApi where
  "new_york_dates =
     \<lparr>getTime = (\<lambda>d. if d = ''2024-03-01'' then Some 1709251200000 else None),
      yearStart = (\<lambda>d. if d = ''2024-03-01'' then Some 1703998800000 else None)\<rparr>"

text \<open>An entry of the chart for that day, and one whose date does not parse.\<close>

definition march_entry :: HistoryEntry where
  "march_entry =
     \<lparr>entry_date = ''2024-03-01'', precipitation = JNumber (Finite 7.5),
      temperature = JNumber (Finite 31)\<rparr>"

definition broken_entry :: HistoryEntry where
  "broken_entry =
     \<lparr>entry_date = ''soon'', precipitation = JNumber (Finite 7.5),
      temperature = JNumber (Finite 31)\<rparr>"

text \<open>
  A response of \<open>/weather/live\<close> and a server that gives it for the coordinates of the
  example form and fails for any other.
\<close>

definition live_response :: "string \<rightharpoonup> jsvalue" where
  "live_response =
     [''elevation'' \<mapsto> JNumber (Finite 0), ''precip_1d'' \<mapsto> JNumber (Finite 3.5),
      ''precip_3d'' \<mapsto> JNumber (Finite 9), ''precip_7d'' \<mapsto> JNumber (Finite 20),
      ''slope'' \<mapsto> JNumber (Finite 1.5), ''landcover'' \<mapsto> JNumber (Finite 0),
      ''dis_trend_3'' \<mapsto> Null]"

definition live_server :: "jsvalue \<Rightarrow> jsvalue \<Rightarrow> fetch_error + (string \<rightharpoonup> jsvalue)" where
  "live_server la lo =
     (if la = JNumber (Finite 23.8103) \<and> lo = JNumber (Finite 90.4125) then Inr live_response
      else Inl RequestFailed)"

text \<open>
  What \<open>replace\<close> followed by \<open>fillna(0.0)\<close> does to one cell; used in the proofs only.
\<close>

definition sanitize :: "float64 \<Rightarrow> float64" where
  "sanitize v = (if is_finite v then v else Finite 0)"

section \<open>Properties of the feature assembler\<close>

lemma fillna_replace_inf: "fillna 0 (replace_inf df) = map sanitize df"
  by (induction df) (auto simp: fillna_def replace_inf_def sanitize_def elim: is_finite.elims)

lemma prepare_input_map:
  "prepare_input columns request =
     map (\<lambda>c. sanitize (case map_of (request_data request) c of Some v \<Rightarrow> v | None \<Rightarrow> NaN))
       columns"
  by (simp add: prepare_input_def fillna_replace_inf DataFrame_def)

lemma sanitize_cases:
  "sanitize v = (if v = NaN \<or> v = PosInf \<or> v = NegInf then Finite 0 else v)"
  by (cases v) (simp_all add: sanitize_def)

lemma sanitize_fun:
  "sanitize = (\<lambda>v. if v = NaN \<or> v = PosInf \<or> v = NegInf then Finite 0 else v)"
  by (rule ext) (rule sanitize_cases)

lemma is_finite_sanitize: "is_finite (sanitize v)"
  by (cases v) (simp_all add: sanitize_def)

lemma prepare_input_thirteen:
  "prepare_input feature_names request =
     map sanitize
       [lat request, lon request, Finite (of_int (date request)), elevation request,
        slope request, Finite (of_int (landcover request)), precip_1d request,
        precip_3d request, precip_7d request, precip_14d request, dis_last request,
        dis_trend_3 request, Finite (of_int (dayofyear request))]"
  by (simp add: prepare_input_map feature_names_def request_data_def)

lemma distinct_request_keys: "distinct (map fst (request_data request))"
  by (simp add: request_data_def)

text \<open>A dictionary with distinct keys does not depend on the order of its items.\<close>

lemma map_of_reordered:
  assumes "mset data' = mset data" and "distinct (map fst data)"
  shows "map_of data' = map_of data"
proof -
  have "mset (map fst data') = mset (map fst data)"
    using assms(1) by (metis mset_map)
  then have "distinct (map fst data')"
    using assms(2) by (metis mset_eq_imp_distinct_iff)
  moreover have "set data' = set data"
    using assms(1) by (rule mset_eq_setD)
  ultimately show ?thesis
    using assms(2) by (simp add: map_of_inject_set)
qed

lemma populated_values:
  "fully_populated request \<Longrightarrow> map_of (request_data request) c = Some v \<Longrightarrow> is_finite v"
  by (auto simp: fully_populated_def request_data_def split: if_splits)

text \<open>
  Claim C1. For every fully populated request the assembled row has as many columns as
  there are feature names (13 for the documented names), and column \<open>i\<close> holds the value
  of the request's field named by the \<open>i\<close>-th feature name. The row does not depend on the
  order of the fields: building it from the items of the request in any other order gives
  the same row. The length and the independence of the order hold for every request.
\<close>

theorem prepare_input_column_order:
  "length (prepare_input columns request) = length columns
   \<and> length (prepare_input feature_names request) = 13
   \<and> (fully_populated request \<longrightarrow>
        (\<forall>i < length columns. \<forall>v. map_of (request_data request) (columns ! i) = Some v
            \<longrightarrow> prepare_input columns request ! i = v))
   \<and> (fully_populated request \<longrightarrow>
        prepare_input feature_names request =
          [lat request, lon request, Finite (of_int (date request)), elevation request,
           slope request, Finite (of_int (landcover request)), precip_1d request,
           precip_3d request, precip_7d request, precip_14d request, dis_last request,
           dis_trend_3 request, Finite (of_int (dayofyear request))])
   \<and> (\<forall>data'. mset data' = mset (request_data request) \<longrightarrow>
          fillna 0 (replace_inf (DataFrame data' columns)) = prepare_input columns request)"
proof (intro conjI impI allI)
  show "length (prepare_input columns request) = length columns"
    by (simp add: prepare_input_map)
  show "length (prepare_input feature_names request) = 13"
    by (simp add: prepare_input_map feature_names_def)
next
  fix i v
  assume "fully_populated request" "i < length columns"
    "map_of (request_data request) (columns ! i) = Some v"
  then show "prepare_input columns request ! i = v"
    using populated_values [of request "columns ! i" v]
    by (simp add: prepare_input_map sanitize_def)
next
  assume "fully_populated request"
  then show "prepare_input feature_names request =
          [lat request, lon request, Finite (of_int (date request)), elevation request,
           slope request, Finite (of_int (landcover request)), precip_1d request,
           precip_3d request, precip_7d request, precip_14d request, dis_last request,
           dis_trend_3 request, Finite (of_int (dayofyear request))]"
    by (simp add: prepare_input_thirteen sanitize_def fully_populated_def)
next
  fix data'
  assume "mset data' = mset (request_data request)"
  then have "map_of data' = map_of (request_data request)"
    by (rule map_of_reordered) (rule distinct_request_keys)
  then show "fillna 0 (replace_inf (DataFrame data' columns)) = prepare_input columns request"
    by (simp add: prepare_input_def DataFrame_def)
qed

theorem prepare_input_column_order_witness:
  "fully_populated example_request
   \<and> 3 < length feature_names
   \<and> map_of (request_data example_request) (feature_names ! 3) = Some (Finite 10.5)
   \<and> prepare_input feature_names example_request ! 3 = Finite 10.5
   \<and> prepare_input feature_names example_request =
       [Finite 23.8103, Finite 90.4125, Finite 180, Finite 10.5, Finite 0.5, Finite 11,
        Finite 50, Finite 120, Finite 200, Finite 300, Finite 1500, Finite 100, Finite 180]
   \<and> mset (rev (request_data example_request)) = mset (request_data example_request)
   \<and> fillna 0 (replace_inf (DataFrame (rev (request_data example_request)) feature_names))
       = prepare_input feature_names example_request"
proof -
  have p: "fully_populated example_request"
    by (simp add: fully_populated_def example_request_def)
  have k: "map_of (request_data example_request) (feature_names ! 3) = Some (Finite 10.5)"
    by (simp add: request_data_def example_request_def feature_names_def)
  have l: "3 < length feature_names"
    by (simp add: feature_names_def)
  have m: "mset (rev (request_data example_request)) = mset (request_data example_request)"
    by simp
  from prepare_input_column_order [of feature_names example_request] p k l m
  show ?thesis
    by (simp add: example_request_def)
qed

text \<open>
  Claim C6. Whatever the request, a column whose field is \<open>NaN\<close>, \<open>+inf\<close> or \<open>-inf\<close>
  holds \<open>0.0\<close> and every other column holds its field unchanged; the assembled row has no
  non-finite cell left. \<open>prepare_input\<close> has no failing branch: it returns a row for
  every request.
\<close>

theorem prepare_input_non_finite:
  "(\<forall>i < length columns. \<forall>v. map_of (request_data request) (columns ! i) = Some v \<longrightarrow>
       prepare_input columns request ! i
         = (if v = NaN \<or> v = PosInf \<or> v = NegInf then Finite 0 else v))
   \<and> prepare_input feature_names request =
       map (\<lambda>v. if v = NaN \<or> v = PosInf \<or> v = NegInf then Finite 0 else v)
         [lat request, lon request, Finite (of_int (date request)), elevation request,
          slope request, Finite (of_int (landcover request)), precip_1d request,
          precip_3d request, precip_7d request, precip_14d request, dis_last request,
          dis_trend_3 request, Finite (of_int (dayofyear request))]
   \<and> list_all is_finite (prepare_input columns request)"
proof (intro conjI allI impI)
  fix i v
  assume "i < length columns" "map_of (request_data request) (columns ! i) = Some v"
  then have "prepare_input columns request ! i = sanitize v"
    by (simp add: prepare_input_map)
  then show "prepare_input columns request ! i
      = (if v = NaN \<or> v = PosInf \<or> v = NegInf then Finite 0 else v)"
    by (simp only: sanitize_cases)
next
  show "prepare_input feature_names request =
       map (\<lambda>v. if v = NaN \<or> v = PosInf \<or> v = NegInf then Finite 0 else v)
         [lat request, lon request, Finite (of_int (date request)), elevation request,
          slope request, Finite (of_int (landcover request)), precip_1d request,
          precip_3d request, precip_7d request, precip_14d request, dis_last request,
          dis_trend_3 request, Finite (of_int (dayofyear request))]"
    by (simp only: prepare_input_thirteen sanitize_fun)
next
  show "list_all is_finite (prepare_input columns request)"
    by (simp add: prepare_input_map list_all_iff is_finite_sanitize)
qed

theorem prepare_input_non_finite_witness:
  "0 < length feature_names
   \<and> map_of (request_data gappy_request) (feature_names ! 0) = Some NaN
   \<and> prepare_input feature_names gappy_request ! 0 = Finite 0
   \<and> prepare_input feature_names gappy_request =
       [Finite 0, Finite 90.4125, Finite 180, Finite (-3), Finite 0.5, Finite 11,
        Finite 0, Finite 120, Finite 200, Finite 300, Finite 1500, Finite 0, Finite 180]"
proof -
  have l: "0 < length feature_names"
    by (simp add: feature_names_def)
  have k: "map_of (request_data gappy_request) (feature_names ! 0) = Some NaN"
    by (simp add: request_data_def gappy_request_def feature_names_def)
  from prepare_input_non_finite [of feature_names gappy_request] l k
  show ?thesis
    by (simp add: gappy_request_def)
qed

section \<open>Properties of rounding\<close>

subsection \<open>The unit in the last place\<close>

lemma quantum_ge: "k0 \<le> quantum n k0 a"
proof (induction n arbitrary: k0)
  case 0
  show ?case by simp
next
  case (Suc n)
  have "k0 + 1 \<le> quantum n (k0 + 1) a" by (rule Suc.IH)
  then show ?case by simp
qed

lemma pow2_mono: "j \<le> k \<Longrightarrow> (2::real) powi j \<le> 2 powi k"
  by (rule power_int_increasing) simp_all

lemma pow2_pos: "0 < (2::real) powi k"
  by (rule zero_less_power_int) simp

lemma quantum_le: "k0 \<le> k \<Longrightarrow> a < 2 powi (k + 53) \<Longrightarrow> quantum n k0 a \<le> k"
proof (induction n arbitrary: k0)
  case 0
  then show ?case by simp
next
  case (Suc n)
  show ?case
  proof (cases "a < 2 powi (k0 + 53)")
    case True
    with Suc.prems show ?thesis by simp
  next
    case False
    have "k0 \<noteq> k" using False Suc.prems(2) by auto
    with Suc.prems(1) have "k0 + 1 \<le> k" by simp
    then have "quantum n (k0 + 1) a \<le> k" using Suc.prems(2) by (rule Suc.IH)
    with False show ?thesis by simp
  qed
qed

lemma quantum_upper:
  "a < 2 powi (k0 + int n + 53) \<Longrightarrow> a < 2 powi (quantum n k0 a + 53)"
proof (induction n arbitrary: k0)
  case 0
  then show ?case by simp
next
  case (Suc n)
  show ?case
  proof (cases "a < 2 powi (k0 + 53)")
    case True
    then show ?thesis by simp
  next
    case False
    have "k0 + 1 + int n + 53 = k0 + int (Suc n) + 53" by simp
    with Suc.prems have "a < 2 powi (k0 + 1 + int n + 53)" by simp
    then have "a < 2 powi (quantum n (k0 + 1) a + 53)" by (rule Suc.IH)
    with False show ?thesis by simp
  qed
qed

lemma quantum_lower: "k0 < quantum n k0 a \<Longrightarrow> 2 powi (quantum n k0 a + 52) \<le> a"
proof (induction n arbitrary: k0)
  case 0
  then show ?case by simp
next
  case (Suc n)
  show ?case
  proof (cases "a < 2 powi (k0 + 53)")
    case True
    with Suc.prems show ?thesis by simp
  next
    case False
    let ?q = "quantum n (k0 + 1) a"
    have q: "quantum (Suc n) k0 a = ?q" using False by simp
    show ?thesis
    proof (cases "k0 + 1 < ?q")
      case True
      then have "2 powi (?q + 52) \<le> a" by (rule Suc.IH)
      with q show ?thesis by simp
    next
      case f: False
      have "k0 + 1 \<le> ?q" by (rule quantum_ge)
      with f have "?q = k0 + 1" by simp
      then have e: "?q + 52 = k0 + 53" by simp
      have "2 powi (k0 + 53) \<le> a" using False by (simp only: not_less)
      then have "2 powi (?q + 52) \<le> a" by (simp only: e)
      then show ?thesis by (simp only: q)
    qed
  qed
qed

lemma ulp_exponent_ge: "- 1074 \<le> ulp_exponent x"
  unfolding ulp_exponent_def by (rule quantum_ge)

lemma ulp_exponent_le:
  "- 1074 \<le> k \<Longrightarrow> \<bar>x\<bar> < 2 powi (k + 53) \<Longrightarrow> ulp_exponent x \<le> k"
  unfolding ulp_exponent_def by (rule quantum_le)

lemma ulp_exponent_upper:
  assumes "\<bar>x\<bar> < 2 powi 1025"
  shows "\<bar>x\<bar> < 2 powi (ulp_exponent x + 53)"
proof -
  have "- 1074 + int 2046 + 53 = (1025::int)" by simp
  with assms have "\<bar>x\<bar> < 2 powi (- 1074 + int 2046 + 53)" by simp
  then show ?thesis
    unfolding ulp_exponent_def by (rule quantum_upper)
qed

lemma ulp_exponent_lower:
  "- 1074 < ulp_exponent x \<Longrightarrow> 2 powi (ulp_exponent x + 52) \<le> \<bar>x\<bar>"
  unfolding ulp_exponent_def by (rule quantum_lower)

lemma ulp_exponent_eq:
  assumes "- 1074 \<le> k" and "k \<le> 972" and "\<bar>x\<bar> < 2 powi (k + 53)"
    and "- 1074 < k \<longrightarrow> 2 powi (k + 52) \<le> \<bar>x\<bar>"
  shows "ulp_exponent x = k"
proof (rule antisym)
  show "ulp_exponent x \<le> k" using assms(1,3) by (rule ulp_exponent_le)
  show "k \<le> ulp_exponent x"
  proof (rule ccontr)
    assume "\<not> k \<le> ulp_exponent x"
    then have lt: "ulp_exponent x < k" by simp
    with ulp_exponent_ge [of x] have "- 1074 < k" by simp
    with assms(4) have low: "2 powi (k + 52) \<le> \<bar>x\<bar>" by simp
    have "ulp_exponent x + 53 \<le> k + 52" using lt by simp
    then have "(2::real) powi (ulp_exponent x + 53) \<le> 2 powi (k + 52)" by (rule pow2_mono)
    with low have ge: "2 powi (ulp_exponent x + 53) \<le> \<bar>x\<bar>" by simp
    have "k + 53 \<le> 1025" using assms(2) by simp
    then have "(2::real) powi (k + 53) \<le> 2 powi 1025" by (rule pow2_mono)
    with assms(3) have "\<bar>x\<bar> < 2 powi 1025" by simp
    then have "\<bar>x\<bar> < 2 powi (ulp_exponent x + 53)" by (rule ulp_exponent_upper)
    with ge show False by simp
  qed
qed

subsection \<open>round_even\<close>

lemma round_even_of_int: "round_even (of_int n) = n"
  by (simp add: round_even_def)

lemma round_even_error: "\<bar>of_int (round_even y) - y\<bar> \<le> 1/2"
proof -
  define f where "f = \<lfloor>y\<rfloor>"
  have b: "of_int f \<le> y" "y < of_int f + 1"
    unfolding f_def by linarith+
  have "round_even y =
      (if y - of_int f < 1/2 then f else if 1/2 < y - of_int f then f + 1
       else if even f then f else f + 1)"
    by (simp add: round_even_def Let_def f_def)
  with b show ?thesis
    by (auto simp: abs_if)
qed

lemma round_even_bound:
  assumes "\<bar>y\<bar> < of_int N"
  shows "\<bar>round_even y\<bar> \<le> N"
proof -
  have "\<bar>of_int (round_even y) - y\<bar> \<le> 1/2" by (rule round_even_error)
  with assms have "\<bar>real_of_int (round_even y)\<bar> < of_int N + 1" by linarith
  then have "real_of_int \<bar>round_even y\<bar> < of_int (N + 1)" by simp
  then have "\<bar>round_even y\<bar> < N + 1" by (simp only: of_int_less_iff)
  then show ?thesis by simp
qed

subsection \<open>Exact results\<close>

lemma on_grid_round:
  assumes x: "x = of_int n * 2 powi j" and le: "k \<le> j"
  shows "of_int (round_even (x / 2 powi k)) * 2 powi k = x"
proof -
  have nz: "(2::real) powi k \<noteq> 0" using pow2_pos [of k] by simp
  have "(2::real) powi j = 2 powi (j - k) * 2 powi k"
    by (simp flip: power_int_add)
  moreover have "(2::real) powi (j - k) = 2 ^ nat (j - k)"
    using le by (simp add: power_int_def)
  ultimately have "x / 2 powi k = of_int (n * 2 ^ nat (j - k))"
    using x nz by simp
  then have "round_even (x / 2 powi k) = n * 2 ^ nat (j - k)"
    by (simp only: round_even_of_int)
  then have "of_int (round_even (x / 2 powi k)) * 2 powi k
      = of_int n * (2 ^ nat (j - k) * 2 powi k)" by (simp add: mult.assoc)
  also have "(2::real) ^ nat (j - k) * 2 powi k = 2 powi j"
    using \<open>(2::real) powi j = 2 powi (j - k) * 2 powi k\<close>
      \<open>(2::real) powi (j - k) = 2 ^ nat (j - k)\<close> by simp
  finally show ?thesis using x by simp
qed

lemma round64_exact:
  assumes "x = of_int n * 2 powi j" and "ulp_exponent x \<le> j" and "\<bar>x\<bar> < 2 powi 1024"
  shows "round64 x = Finite x"
proof -
  have "of_int (round_even (x / 2 powi ulp_exponent x)) * 2 powi ulp_exponent x = x"
    using assms(1,2) by (rule on_grid_round)
  with assms(3) show ?thesis
    by (simp add: round64_def Let_def)
qed

lemma is_double_grid:
  assumes "is_double p"
  shows "\<exists>n. p = of_int n * 2 powi ulp_exponent p"
proof -
  let ?r = "of_int (round_even (p / 2 powi ulp_exponent p)) * 2 powi ulp_exponent p"
  have "round64 p = Finite p" using assms by (simp add: is_double_def)
  then have "?r = p"
    by (simp add: round64_def Let_def split: if_splits)
  then have "p = of_int (round_even (p / 2 powi ulp_exponent p)) * 2 powi ulp_exponent p"
    by simp
  then show ?thesis ..
qed

lemma is_double_magnitude:
  assumes "is_double p"
  shows "\<bar>p\<bar> < 2 powi 1024"
proof -
  have "round64 p = Finite p" using assms by (simp add: is_double_def)
  then show ?thesis
    by (simp add: round64_def Let_def split: if_splits)
qed

subsection \<open>The confidence expression\<close>

lemma ulp_exponent_minus: "ulp_exponent (- x) = ulp_exponent x"
  by (simp add: ulp_exponent_def)

lemma pow2_1024: "(1::real) < 2 powi 1024"
proof -
  have "(2::real) powi 0 < 2 powi 1024"
    by (rule power_int_strict_increasing) simp_all
  then show ?thesis by simp
qed

lemma round64_grid:
  assumes n: "\<bar>n\<bar> \<le> 2 ^ 53" and j: "- 1074 \<le> j"
    and m: "\<bar>of_int n * (2::real) powi j\<bar> < 2 powi 1024"
  shows "round64 (of_int n * 2 powi j) = Finite (of_int n * 2 powi j)"
proof (cases "\<bar>n\<bar> < 2 ^ 53")
  case True
  let ?x = "of_int n * (2::real) powi j"
  have "real_of_int \<bar>n\<bar> < of_int (2 ^ 53)" using True by (simp only: of_int_less_iff)
  then have "\<bar>real_of_int n\<bar> < 2 ^ 53" by simp
  then have "\<bar>real_of_int n\<bar> * 2 powi j < 2 ^ 53 * 2 powi j"
    using pow2_pos [of j] by (rule mult_strict_right_mono)
  moreover have "(2::real) ^ 53 * 2 powi j = 2 powi (j + 53)"
    by (simp add: power_int_add)
  moreover have "\<bar>?x\<bar> = \<bar>real_of_int n\<bar> * 2 powi j"
    using pow2_pos [of j] by (simp add: abs_mult)
  ultimately have "\<bar>?x\<bar> < 2 powi (j + 53)" by (simp only:)
  with j have "ulp_exponent ?x \<le> j" by (rule ulp_exponent_le)
  with refl show ?thesis using m by (rule round64_exact)
next
  case False
  with n have e: "\<bar>n\<bar> = 2 ^ 53" by simp
  let ?x = "of_int n * (2::real) powi j"
  define s :: int where "s = (if 0 \<le> n then 1 else - 1)"
  have "n = s * 2 ^ 53" using e by (auto simp: s_def abs_if split: if_splits)
  then have "real_of_int n = of_int s * 2 ^ 53" by simp
  moreover have "(2::real) ^ 53 * 2 powi j = 2 powi (j + 53)"
    by (simp add: power_int_add)
  ultimately have x: "?x = of_int s * 2 powi (j + 53)" by simp
  have "\<bar>?x\<bar> = 2 powi (j + 53)"
    unfolding x using pow2_pos [of "j + 53"] by (simp add: abs_mult s_def)
  moreover have "(2::real) powi (j + 53) < 2 powi (j + 53 + 53)"
    by (rule power_int_strict_increasing) simp_all
  ultimately have "\<bar>?x\<bar> < 2 powi (j + 53 + 53)" by simp
  moreover have "- 1074 \<le> j + 53" using j by simp
  ultimately have "ulp_exponent ?x \<le> j + 53" by (rule ulp_exponent_le [rotated])
  with x show ?thesis using m by (rule round64_exact)
qed

text \<open>The expression of the source, for a flood probability \<open>p\<close>.\<close>

lemma score_exact:
  assumes x: "p - 1/2 = of_int n * 2 powi j" and u: "ulp_exponent (p - 1/2) \<le> j"
    and h: "\<bar>p - 1/2\<bar> \<le> 1/2"
  shows "fmul (fabs (fsub (Finite p) (Finite (1/2)))) (Finite 2) = Finite (\<bar>p - 1/2\<bar> * 2)"
proof -
  let ?x = "p - 1/2"
  have small: "\<bar>?x\<bar> < 2 powi 1024" using h pow2_1024 by linarith
  have sub: "round64 ?x = Finite ?x" using x u small by (rule round64_exact)
  have absx: "\<bar>?x\<bar> = of_int \<bar>n\<bar> * 2 powi j"
    using pow2_pos [of j] by (simp add: x abs_mult)
  have "(2::real) powi (j + 1) = 2 powi j * 2" by (simp add: power_int_add)
  with absx have grid: "\<bar>?x\<bar> * 2 = of_int \<bar>n\<bar> * 2 powi (j + 1)" by simp
  have "\<bar>?x\<bar> < 2 powi 1025"
  proof -
    have "(2::real) powi 1024 \<le> 2 powi 1025" by (rule pow2_mono) simp
    with small show ?thesis by simp
  qed
  then have "\<bar>?x\<bar> < 2 powi (ulp_exponent ?x + 53)" by (rule ulp_exponent_upper)
  moreover have "(2::real) powi (ulp_exponent ?x + 53) \<le> 2 powi (j + 53)"
    using u by (intro pow2_mono) simp
  ultimately have "\<bar>?x\<bar> < 2 powi (j + 53)" by simp
  moreover have "(2::real) powi (j + 1 + 53) = 2 powi (j + 53) * 2"
    by (simp add: power_int_add)
  ultimately have "\<bar>\<bar>?x\<bar> * 2\<bar> < 2 powi (j + 1 + 53)" by simp
  moreover have "- 1074 \<le> j + 1" using ulp_exponent_ge [of ?x] u by simp
  ultimately have "ulp_exponent (\<bar>?x\<bar> * 2) \<le> j + 1" by (rule ulp_exponent_le [rotated])
  moreover have "\<bar>\<bar>?x\<bar> * 2\<bar> < 2 powi 1024"
  proof -
    have "\<bar>?x\<bar> * 2 \<le> 1" using h by simp
    then have "\<bar>?x\<bar> * 2 < 2 powi 1024" using pow2_1024 by (rule order.strict_trans1)
    then show ?thesis by simp
  qed
  ultimately have "round64 (\<bar>?x\<bar> * 2) = Finite (\<bar>?x\<bar> * 2)"
    using grid by (intro round64_exact)
  with sub show ?thesis by simp
qed

lemma half_grid:
  assumes d: "is_double p" and lo: "1/4 \<le> p" and hi: "p \<le> 1"
  shows "\<exists>n j. p - 1/2 = of_int n * 2 powi j \<and> ulp_exponent (p - 1/2) \<le> j"
proof -
  let ?k = "ulp_exponent p"
  obtain m where m: "p = of_int m * 2 powi ?k" using is_double_grid [OF d] ..
  have ap: "\<bar>p\<bar> = p" using lo by simp
  have "\<bar>p\<bar> < 2 powi 1025"
  proof -
    have "(2::real) powi 0 < 2 powi 1025" by (rule power_int_strict_increasing) simp_all
    with hi ap show ?thesis by simp
  qed
  then have up: "p < 2 powi (?k + 53)" using ulp_exponent_upper [of p] ap by simp
  have k_lo: "- 54 \<le> ?k"
  proof (rule ccontr)
    assume "\<not> - 54 \<le> ?k"
    then have "?k + 53 \<le> - 2" by simp
    then have "(2::real) powi (?k + 53) \<le> 2 powi (- 2)" by (rule pow2_mono)
    with up have "p < 1/4" by simp
    with lo show False by simp
  qed
  have k_hi: "?k \<le> - 52"
  proof (rule ulp_exponent_le)
    show "- 1074 \<le> (- 52::int)" by simp
    show "\<bar>p\<bar> < 2 powi (- 52 + 53)" using hi ap by simp
  qed
  have "(2::real) ^ nat (- 1 - ?k) = 2 powi (- 1 - ?k)"
    using k_hi by (simp add: power_int_def)
  moreover have "(2::real) powi (- 1 - ?k) * 2 powi ?k = 2 powi (- 1 - ?k + ?k)"
    by (rule power_int_add [symmetric]) simp
  moreover have "(2::real) powi (- 1 - ?k + ?k) = 1/2" by simp
  ultimately have half: "(2::real) ^ nat (- 1 - ?k) * 2 powi ?k = 1/2" by (simp only:)
  have grid: "p - 1/2 = of_int (m - 2 ^ nat (- 1 - ?k)) * 2 powi ?k"
    using m half by (simp add: algebra_simps)
  have "\<bar>p - 1/2\<bar> < 2 powi (?k + 53)"
  proof (cases "1/2 \<le> p")
    case True
    have "- 53 \<le> ?k"
    proof (rule ccontr)
      assume "\<not> - 53 \<le> ?k"
      then have "?k + 53 \<le> - 1" by simp
      then have "(2::real) powi (?k + 53) \<le> 2 powi (- 1)" by (rule pow2_mono)
      with up have "p < 1/2" by simp
      with True show False by simp
    qed
    then have "(2::real) powi 0 \<le> 2 powi (?k + 53)" by (intro pow2_mono) simp
    then have "1 \<le> (2::real) powi (?k + 53)" by simp
    moreover have "\<bar>p - 1/2\<bar> \<le> 1/2" using True hi by linarith
    ultimately show ?thesis by linarith
  next
    case False
    have "(2::real) powi (- 1) \<le> 2 powi (?k + 53)" using k_lo by (intro pow2_mono) simp
    then have "1/2 \<le> (2::real) powi (?k + 53)" by simp
    moreover have "\<bar>p - 1/2\<bar> \<le> 1/4" using False lo by linarith
    ultimately show ?thesis by linarith
  qed
  with ulp_exponent_ge have "ulp_exponent (p - 1/2) \<le> ?k" by (rule ulp_exponent_le)
  with grid show ?thesis by blast
qed

lemma score_upper_range:
  assumes "is_double p" and "1/4 \<le> p" and "p \<le> 1"
  shows "fmul (fabs (fsub (Finite p) (Finite (1/2)))) (Finite 2) = Finite (\<bar>p - 1/2\<bar> * 2)"
proof -
  obtain n j where "p - 1/2 = of_int n * 2 powi j" "ulp_exponent (p - 1/2) \<le> j"
    using half_grid [OF assms] by blast
  moreover have "\<bar>p - 1/2\<bar> \<le> 1/2" using assms(2,3) by linarith
  ultimately show ?thesis by (rule score_exact)
qed

lemma score_mirror:
  assumes "is_double p" and "1/2 \<le> p" and "p \<le> 1"
  shows "fmul (fabs (fsub (Finite (1 - p)) (Finite (1/2)))) (Finite 2) = Finite (\<bar>p - 1/2\<bar> * 2)"
proof -
  have q: "1/4 \<le> p" using assms(2) by simp
  obtain n j where g: "p - 1/2 = of_int n * 2 powi j" "ulp_exponent (p - 1/2) \<le> j"
    using half_grid [OF assms(1) q assms(3)] by blast
  have e: "(1 - p) - 1/2 = - (p - 1/2)" by simp
  have "(1 - p) - 1/2 = of_int (- n) * 2 powi j" using g(1) by simp
  moreover have "ulp_exponent ((1 - p) - 1/2) \<le> j"
    using g(2) by (simp only: e ulp_exponent_minus)
  moreover have "\<bar>(1 - p) - 1/2\<bar> \<le> 1/2" using assms(2,3) by linarith
  ultimately have
    "fmul (fabs (fsub (Finite (1 - p)) (Finite (1/2)))) (Finite 2) = Finite (\<bar>(1 - p) - 1/2\<bar> * 2)"
    by (rule score_exact)
  moreover have "\<bar>(1 - p) - 1/2\<bar> = \<bar>p - 1/2\<bar>" by linarith
  ultimately show ?thesis by simp
qed

lemma score_symmetric:
  assumes p: "is_double p" and q: "is_double (1 - p)" and lo: "0 \<le> p" and hi: "p \<le> 1"
  shows "fmul (fabs (fsub (Finite (1 - p)) (Finite (1/2)))) (Finite 2)
       = fmul (fabs (fsub (Finite p) (Finite (1/2)))) (Finite 2)"
proof (cases "1/2 \<le> p")
  case True
  then have "1/4 \<le> p" by simp
  with p have "fmul (fabs (fsub (Finite p) (Finite (1/2)))) (Finite 2) = Finite (\<bar>p - 1/2\<bar> * 2)"
    using hi by (rule score_upper_range)
  with score_mirror [OF p True hi] show ?thesis by simp
next
  case False
  let ?q = "1 - p"
  have a: "1/2 \<le> ?q" "?q \<le> 1" "1/4 \<le> ?q" using False lo by linarith+
  have "fmul (fabs (fsub (Finite (1 - ?q)) (Finite (1/2)))) (Finite 2) = Finite (\<bar>?q - 1/2\<bar> * 2)"
    using q a(1,2) by (rule score_mirror)
  moreover have "fmul (fabs (fsub (Finite ?q) (Finite (1/2)))) (Finite 2) = Finite (\<bar>?q - 1/2\<bar> * 2)"
    using q a(3,2) by (rule score_upper_range)
  ultimately show ?thesis by simp
qed

lemma complement_exact:
  assumes d: "is_double p" and lo: "1/2 \<le> p" and hi: "p \<le> 1"
  shows "fsub (Finite 1) (Finite p) = Finite (1 - p)"
proof -
  let ?k = "ulp_exponent p"
  obtain m where m: "p = of_int m * 2 powi ?k" using is_double_grid [OF d] ..
  have ap: "\<bar>p\<bar> = p" using lo by simp
  have "\<bar>p\<bar> < 2 powi 1025"
  proof -
    have "(2::real) powi 0 < 2 powi 1025" by (rule power_int_strict_increasing) simp_all
    with hi ap show ?thesis by simp
  qed
  then have up: "p < 2 powi (?k + 53)" using ulp_exponent_upper [of p] ap by simp
  have k_lo: "- 53 \<le> ?k"
  proof (rule ccontr)
    assume "\<not> - 53 \<le> ?k"
    then have "?k + 53 \<le> - 1" by simp
    then have "(2::real) powi (?k + 53) \<le> 2 powi (- 1)" by (rule pow2_mono)
    with up have "p < 1/2" by simp
    with lo show False by simp
  qed
  have k_hi: "?k \<le> - 52"
  proof (rule ulp_exponent_le)
    show "- 1074 \<le> (- 52::int)" by simp
    show "\<bar>p\<bar> < 2 powi (- 52 + 53)" using hi ap by simp
  qed
  have "(2::real) ^ nat (- ?k) = 2 powi (- ?k)"
    using k_hi by (simp add: power_int_def)
  moreover have "(2::real) powi (- ?k) * 2 powi ?k = 2 powi (- ?k + ?k)"
    by (rule power_int_add [symmetric]) simp
  moreover have "(2::real) powi (- ?k + ?k) = 1" by simp
  ultimately have one: "(2::real) ^ nat (- ?k) * 2 powi ?k = 1" by (simp only:)
  have grid: "1 - p = of_int (2 ^ nat (- ?k) - m) * 2 powi ?k"
    using m one by (simp add: algebra_simps)
  have "(2::real) powi 0 \<le> 2 powi (?k + 53)" using k_lo by (intro pow2_mono) simp
  then have "1 \<le> (2::real) powi (?k + 53)" by simp
  moreover have "\<bar>1 - p\<bar> \<le> 1/2" using lo hi by linarith
  ultimately have "\<bar>1 - p\<bar> < 2 powi (?k + 53)" by linarith
  with ulp_exponent_ge have "ulp_exponent (1 - p) \<le> ?k" by (rule ulp_exponent_le)
  moreover have "\<bar>1 - p\<bar> < 2 powi 1024" using lo hi pow2_1024 by linarith
  ultimately have "round64 (1 - p) = Finite (1 - p)"
    using grid by (intro round64_exact)
  then show ?thesis by simp
qed

lemma doubled_bound:
  fixes d e u c :: real
  assumes "e \<le> 1/2 * u" and "u \<le> c" and "d \<le> e"
  shows "d * 2 \<le> c"
  using assms by linarith

lemma score_error:
  assumes lo: "0 \<le> p" and hi: "p \<le> 1"
  shows "\<exists>c. fmul (fabs (fsub (Finite p) (Finite (1/2)))) (Finite 2) = Finite c
    \<and> \<bar>c - \<bar>p - 1/2\<bar> * 2\<bar> \<le> 1 / 2 ^ 54"
proof (cases "\<bar>p - 1/2\<bar> < 1/2")
  case False
  let ?x = "p - 1/2"
  have h: "\<bar>?x\<bar> \<le> 1/2" using lo hi by linarith
  with False have "?x = 1/2 \<or> ?x = - (1/2)" by linarith
  then have "?x = of_int (if 0 \<le> ?x then 1 else - 1) * 2 powi (- 1)" by auto
  moreover have "ulp_exponent ?x \<le> - 1"
  proof (rule ulp_exponent_le)
    show "- 1074 \<le> (- 1::int)" by simp
    show "\<bar>?x\<bar> < 2 powi (- 1 + 53)" using h by simp
  qed
  ultimately have "fmul (fabs (fsub (Finite p) (Finite (1/2)))) (Finite 2) = Finite (\<bar>?x\<bar> * 2)"
    using h by (rule score_exact)
  then show ?thesis by simp
next
  case True
  let ?x = "p - 1/2"
  let ?k = "ulp_exponent ?x"
  define re where "re = round_even (?x / 2 powi ?k)"
  define r where "r = real_of_int re * 2 powi ?k"
  have pk: "0 < (2::real) powi ?k" by (rule pow2_pos)
  have k: "?k \<le> - 54"
  proof (rule ulp_exponent_le)
    show "- 1074 \<le> (- 54::int)" by simp
    show "\<bar>?x\<bar> < 2 powi (- 54 + 53)" using True by simp
  qed
  have k_lo: "- 1074 \<le> ?k" by (rule ulp_exponent_ge)
  have "\<bar>?x\<bar> < 2 powi 1025"
  proof -
    have "(2::real) powi 0 < 2 powi 1025" by (rule power_int_strict_increasing) simp_all
    with True show ?thesis by simp
  qed
  then have up: "\<bar>?x\<bar> < 2 powi (?k + 53)" by (rule ulp_exponent_upper)
  have split: "(2::real) powi (?k + 53) = 2 ^ 53 * 2 powi ?k"
    by (simp add: power_int_add)
  have "\<bar>?x / 2 powi ?k\<bar> = \<bar>?x\<bar> / 2 powi ?k" using pk by simp
  also have "\<dots> < 2 ^ 53" using up pk by (simp add: split divide_less_eq)
  finally have "\<bar>?x / 2 powi ?k\<bar> < real_of_int (2 ^ 53)" by simp
  then have re_le: "\<bar>re\<bar> \<le> 2 ^ 53" unfolding re_def by (rule round_even_bound)
  have "\<bar>real_of_int re - ?x / 2 powi ?k\<bar> \<le> 1/2"
    unfolding re_def by (rule round_even_error)
  then have "\<bar>real_of_int re - ?x / 2 powi ?k\<bar> * 2 powi ?k \<le> 1/2 * 2 powi ?k"
    using pk by (intro mult_right_mono) simp_all
  moreover have "\<bar>real_of_int re - ?x / 2 powi ?k\<bar> * 2 powi ?k = \<bar>r - ?x\<bar>"
  proof -
    have "?x / 2 powi ?k * 2 powi ?k = ?x" using pk by simp
    then have "r - ?x = (real_of_int re - ?x / 2 powi ?k) * 2 powi ?k"
      by (simp only: r_def left_diff_distrib)
    then show ?thesis using pk by (simp add: abs_mult)
  qed
  ultimately have err: "\<bar>r - ?x\<bar> \<le> 1/2 * 2 powi ?k" by simp
  have "(2::real) powi ?k \<le> 2 powi (- 54)" using k by (rule pow2_mono)
  then have ulp: "(2::real) powi ?k \<le> 1 / 2 ^ 54" by simp
  have "\<bar>r\<bar> = real_of_int \<bar>re\<bar> * 2 powi ?k" using pk by (simp add: r_def abs_mult)
  moreover have "real_of_int \<bar>re\<bar> \<le> real_of_int (2 ^ 53)"
    using re_le by (simp only: of_int_le_iff)
  then have "real_of_int \<bar>re\<bar> * 2 powi ?k \<le> real_of_int (2 ^ 53) * 2 powi ?k"
    using pk by (intro mult_right_mono) simp_all
  ultimately have "\<bar>r\<bar> \<le> 2 powi (?k + 53)" by (simp add: split)
  moreover have "(2::real) powi (?k + 53) \<le> 2 powi (- 1)" using k by (intro pow2_mono) simp
  ultimately have r_half: "\<bar>r\<bar> \<le> 1/2" by simp
  then have "\<bar>r\<bar> < 2 powi 1024" using pow2_1024 by linarith
  then have sub: "round64 ?x = Finite r"
    by (simp add: round64_def Let_def r_def re_def)
  have "(2::real) powi (?k + 1) = 2 powi ?k * 2" by (simp add: power_int_add)
  then have grid: "\<bar>r\<bar> * 2 = real_of_int \<bar>re\<bar> * 2 powi (?k + 1)"
    using pk by (simp add: r_def abs_mult)
  have "round64 (real_of_int \<bar>re\<bar> * 2 powi (?k + 1)) = Finite (real_of_int \<bar>re\<bar> * 2 powi (?k + 1))"
  proof (rule round64_grid)
    show "\<bar>\<bar>re\<bar>\<bar> \<le> 2 ^ 53" using re_le by simp
    show "- 1074 \<le> ?k + 1" using k_lo by simp
    have "\<bar>r\<bar> * 2 \<le> 1" using r_half by simp
    then have "\<bar>r\<bar> * 2 < 2 powi 1024" using pow2_1024 by (rule order.strict_trans1)
    then show "\<bar>real_of_int \<bar>re\<bar> * 2 powi (?k + 1)\<bar> < 2 powi 1024"
      by (simp only: grid [symmetric])
  qed
  then have mul: "round64 (\<bar>r\<bar> * 2) = Finite (\<bar>r\<bar> * 2)" by (simp only: grid)
  have "fmul (fabs (fsub (Finite p) (Finite (1/2)))) (Finite 2) = Finite (\<bar>r\<bar> * 2)"
    using sub mul by simp
  moreover have "\<bar>\<bar>r\<bar> * 2 - \<bar>?x\<bar> * 2\<bar> \<le> 1 / 2 ^ 54"
  proof -
    have "\<bar>\<bar>r\<bar> - \<bar>?x\<bar>\<bar> \<le> \<bar>r - ?x\<bar>" by (rule abs_triangle_ineq3)
    with err ulp have "\<bar>\<bar>r\<bar> - \<bar>?x\<bar>\<bar> * 2 \<le> 1 / 2 ^ 54" by (rule doubled_bound)
    moreover have "\<bar>r\<bar> * 2 - \<bar>?x\<bar> * 2 = (\<bar>r\<bar> - \<bar>?x\<bar>) * 2" by (simp only: left_diff_distrib)
    then have "\<bar>\<bar>r\<bar> * 2 - \<bar>?x\<bar> * 2\<bar> = \<bar>\<bar>r\<bar> - \<bar>?x\<bar>\<bar> * 2" by (simp only: abs_mult) simp
    ultimately show ?thesis by (simp only:)
  qed
  ultimately show ?thesis by blast
qed

text \<open>The confidence field of a response is that expression at its flood probability.\<close>

lemma predict_confidence_eq:
  "confidence (predict predict_proba columns request)
     = fmul (fabs (fsub (Finite (flood_probability (predict predict_proba columns request)))
         (Finite (1/2)))) (Finite 2)"
  by (simp add: predict_def Let_def)

subsection \<open>Particular doubles\<close>

lemma is_double_gridI:
  assumes "x = of_int n * 2 powi j" and "\<bar>n\<bar> \<le> 2 ^ 53" and "- 1074 \<le> j" and "\<bar>x\<bar> \<le> 1"
  shows "is_double x"
proof -
  have "\<bar>x\<bar> < 2 powi 1024" using assms(4) pow2_1024 by (rule order.strict_trans1)
  then have "\<bar>of_int n * (2::real) powi j\<bar> < 2 powi 1024" by (simp only: assms(1))
  with assms(2,3) have "round64 (of_int n * 2 powi j) = Finite (of_int n * 2 powi j)"
    by (rule round64_grid)
  then show ?thesis by (simp only: is_double_def assms(1))
qed

lemma is_double_0_1: "is_double double_0_1"
  by (rule is_double_gridI [where n = 3602879701896397 and j = "- 55"])
    (simp_all add: double_0_1_def)

lemma is_double_0_3: "is_double double_0_3"
  by (rule is_double_gridI [where n = 5404319552844595 and j = "- 54"])
    (simp_all add: double_0_3_def)

lemma is_double_0_7: "is_double double_0_7"
  by (rule is_double_gridI [where n = 3152519739159347 and j = "- 52"])
    (simp_all add: double_0_7_def)

lemma is_double_quarters: "is_double (3/4)" "is_double (1/4)" "is_double (1/2)" "is_double 1"
    "is_double 0"
proof -
  show "is_double (3/4)"
    by (rule is_double_gridI [where n = 3 and j = "- 2"]) simp_all
  show "is_double (1/4)"
    by (rule is_double_gridI [where n = 1 and j = "- 2"]) simp_all
  show "is_double (1/2)"
    by (rule is_double_gridI [where n = 1 and j = "- 1"]) simp_all
  show "is_double 1"
    by (rule is_double_gridI [where n = 1 and j = 0]) simp_all
  show "is_double 0"
    by (rule is_double_gridI [where n = 0 and j = 0]) simp_all
qed

text \<open>Rounding the decimal numbers 0.1, 0.3 and 0.7 gives these doubles.\<close>

lemma round64_decimals:
  "round64 0.1 = Finite double_0_1" "round64 0.3 = Finite double_0_3"
  "round64 0.7 = Finite double_0_7"
proof -
  have "ulp_exponent 0.1 = - 56"
    by (rule ulp_exponent_eq) simp_all
  then show "round64 0.1 = Finite double_0_1"
    by (simp add: round64_def Let_def round_even_def double_0_1_def)
  have "ulp_exponent 0.3 = - 54"
    by (rule ulp_exponent_eq) simp_all
  then show "round64 0.3 = Finite double_0_3"
    by (simp add: round64_def Let_def round_even_def double_0_3_def)
  have "ulp_exponent 0.7 = - 53"
    by (rule ulp_exponent_eq) simp_all
  then show "round64 0.7 = Finite double_0_7"
    by (simp add: round64_def Let_def round_even_def double_0_7_def)
qed

text \<open>Two roundings that are not exact: both are ties, resolved to the even neighbour.\<close>

lemma round64_0_1_minus_half:
  "round64 (double_0_1 - 1/2) = Finite (- (3602879701896397 / 2 ^ 53))"
proof -
  have "ulp_exponent (double_0_1 - 1/2) = - 54"
    by (rule ulp_exponent_eq) (simp_all add: double_0_1_def)
  then show ?thesis
    by (simp add: round64_def Let_def round_even_def double_0_1_def)
qed

lemma round64_one_minus_0_3: "round64 (1 - double_0_3) = Finite double_0_7"
proof -
  have "ulp_exponent (1 - double_0_3) = - 53"
    by (rule ulp_exponent_eq) (simp_all add: double_0_3_def)
  then show ?thesis
    by (simp add: round64_def Let_def round_even_def double_0_3_def double_0_7_def)
qed

lemma score_0_1:
  "fmul (fabs (fsub (Finite double_0_1) (Finite (1/2)))) (Finite 2)
     = Finite (3602879701896397 / 2 ^ 52)"
proof -
  have "is_double (3602879701896397 / 2 ^ 52)"
    by (rule is_double_gridI [where n = 3602879701896397 and j = "- 52"]) simp_all
  then have "round64 (3602879701896397 / 2 ^ 52) = Finite (3602879701896397 / 2 ^ 52)"
    by (simp only: is_double_def)
  then show ?thesis
    by (simp add: round64_0_1_minus_half)
qed

lemma predict_fixed:
  "confidence (predict (fixed_classifier p) columns request)
     = fmul (fabs (fsub (Finite p) (Finite (1/2)))) (Finite 2)"
  "flood_probability (predict (fixed_classifier p) columns request) = p"
  by (simp_all add: predict_def Let_def fixed_classifier_def)

section \<open>Properties of the classifier, the scorer and the endpoint\<close>

text \<open>What \<open>_calculate_risk_level\<close> computes: the tiers are cut at 0.3 and 0.7.\<close>

lemma calculate_risk_level_tiers:
  "(calculate_risk_level p = Low \<longleftrightarrow> p < 0.3)
   \<and> (calculate_risk_level p = Medium \<longleftrightarrow> 0.3 \<le> p \<and> p < 0.7)
   \<and> (calculate_risk_level p = High \<longleftrightarrow> 0.7 \<le> p)"
  by (simp add: calculate_risk_level_def)

text \<open>
  Claim C2. The claim puts the boundary between Medium and High at 0.6, as the backend
  README and the gauge of the frontend do. \<open>_calculate_risk_level\<close> cuts at 0.7: a
  probability of 0.65 is classified Medium, in the response as well, while the gauge
  colours it as high risk.
\<close>

theorem calculate_risk_level_between_thresholds:
  "calculate_risk_level 0.65 = Medium
   \<and> risk_level (predict (\<lambda>df. (0.35, 0.65)) columns request) = Medium
   \<and> getGaugeColor 0.65 = ''var(--risk-high)''"
  by (simp add: calculate_risk_level_def predict_def getGaugeColor_def)

text \<open>
  Claim C3. With the model not loaded the handler raises \<open>HTTPException(503)\<close> inside
  its \<open>try\<close> block, without calling the predictor; the \<open>except Exception\<close> clause of the
  same block catches it and raises \<open>HTTPException(500)\<close> in its place. The response
  status is 500, whatever the request and the predictor.
\<close>

theorem predict_flood_model_not_loaded:
  "predict_flood str False predictor_predict request
     = Inl (HTTPException 500 (str (HTTPException 503 ''Model not loaded'')))
   \<and> status_code (predict_flood str False predictor_predict request) = 500"
  by (simp add: predict_flood_def)

text \<open>With the model loaded the handler answers 200 with the predictor's response.\<close>

lemma predict_flood_model_loaded:
  "predict_flood str True (\<lambda>r. Inr (predict predict_proba columns r)) request
     = Inr (predict predict_proba columns request)"
  by (simp add: predict_flood_def)

text \<open>
  Claim C4, as stated, does not hold of the doubles. For the double nearest to 0.1 the
  difference \<open>p - 0.5\<close> is not a double; it is rounded, and the confidence is the
  double nearest to 0.8, which is not \<open>|p - 0.5| * 2\<close>. For the double nearest to 0.3
  the complement \<open>1 - p\<close> is rounded to the double nearest to 0.7, and the confidence
  there differs from the confidence at \<open>p\<close>.
\<close>

theorem predict_confidence_counterexample:
  "round64 0.1 = Finite double_0_1 \<and> round64 0.3 = Finite double_0_3
   \<and> round64 0.7 = Finite double_0_7
   \<and> is_double double_0_1 \<and> 0 \<le> double_0_1 \<and> double_0_1 \<le> 1
   \<and> confidence (predict (fixed_classifier double_0_1) feature_names example_request)
       = Finite (3602879701896397 / 2 ^ 52)
   \<and> \<bar>double_0_1 - 0.5\<bar> * 2 = 14411518807585587 / 2 ^ 54
   \<and> confidence (predict (fixed_classifier double_0_1) feature_names example_request)
       \<noteq> Finite (\<bar>double_0_1 - 0.5\<bar> * 2)
   \<and> is_double double_0_3 \<and> 0 \<le> double_0_3 \<and> double_0_3 \<le> 1
   \<and> fsub (Finite 1) (Finite double_0_3) = Finite double_0_7
   \<and> confidence (predict (fixed_classifier double_0_3) feature_names example_request)
       = Finite (3602879701896397 / 2 ^ 53)
   \<and> confidence (predict (fixed_classifier double_0_7) feature_names example_request)
       = Finite (900719925474099 / 2 ^ 51)
   \<and> confidence (predict (fixed_classifier double_0_3) feature_names example_request)
       \<noteq> confidence (predict (fixed_classifier double_0_7) feature_names example_request)"
proof -
  have c1: "confidence (predict (fixed_classifier double_0_1) feature_names example_request)
       = Finite (3602879701896397 / 2 ^ 52)"
    by (simp only: predict_fixed score_0_1)
  have e1: "\<bar>double_0_1 - 0.5\<bar> * 2 = 14411518807585587 / 2 ^ 54"
    by (simp add: double_0_1_def)
  have "fmul (fabs (fsub (Finite double_0_3) (Finite (1/2)))) (Finite 2)
      = Finite (\<bar>double_0_3 - 1/2\<bar> * 2)"
    by (rule score_upper_range) (simp_all add: is_double_0_3, simp_all add: double_0_3_def)
  moreover have "\<bar>double_0_3 - 1/2\<bar> * 2 = 3602879701896397 / 2 ^ 53"
    by (simp add: double_0_3_def)
  ultimately
  have c3: "confidence (predict (fixed_classifier double_0_3) feature_names example_request)
       = Finite (3602879701896397 / 2 ^ 53)"
    by (simp only: predict_fixed)
  have "fmul (fabs (fsub (Finite double_0_7) (Finite (1/2)))) (Finite 2)
      = Finite (\<bar>double_0_7 - 1/2\<bar> * 2)"
    by (rule score_upper_range) (simp_all add: is_double_0_7, simp_all add: double_0_7_def)
  moreover have "\<bar>double_0_7 - 1/2\<bar> * 2 = 900719925474099 / 2 ^ 51"
    by (simp add: double_0_7_def)
  ultimately
  have c7: "confidence (predict (fixed_classifier double_0_7) feature_names example_request)
       = Finite (900719925474099 / 2 ^ 51)"
    by (simp only: predict_fixed)
  have s: "fsub (Finite 1) (Finite double_0_3) = Finite double_0_7"
    by (simp add: round64_one_minus_0_3)
  have r: "0 \<le> double_0_1" "double_0_1 \<le> 1" "0 \<le> double_0_3" "double_0_3 \<le> 1"
    by (simp_all add: double_0_1_def double_0_3_def)
  show ?thesis
    unfolding c1 c3 c7 e1 using is_double_0_1 is_double_0_3 s r round64_decimals by simp
qed

text \<open>
  Claim C4, amended. For a flood probability between 0 and 1 the confidence is a finite
  double within \<open>2^-54\<close> of \<open>|p - 0.5| * 2\<close>, for every classifier and request; it is
  exactly \<open>|p - 0.5| * 2\<close> when the probability is a double of at least 0.25. For a
  classifier that answers \<open>p\<close>: the confidence is 0 at \<open>p = 0.5\<close> and 1 at \<open>p = 0\<close> and
  at \<open>p = 1\<close>; it is the same at \<open>p\<close> and at \<open>1 - p\<close> whenever both are doubles between 0
  and 1; and for every double \<open>p\<close> from 0.5 to 1 the subtraction \<open>1 - p\<close> is exact, so
  the confidence at the computed complement is the confidence at \<open>p\<close>.
\<close>

theorem predict_confidence_rounded:
  "(0 \<le> flood_probability (predict predict_proba columns request)
      \<and> flood_probability (predict predict_proba columns request) \<le> 1 \<longrightarrow>
      (\<exists>c. confidence (predict predict_proba columns request) = Finite c
         \<and> \<bar>c - \<bar>flood_probability (predict predict_proba columns request) - 0.5\<bar> * 2\<bar>
             \<le> 1 / 2 ^ 54))
   \<and> (is_double (flood_probability (predict predict_proba columns request))
      \<and> 0.25 \<le> flood_probability (predict predict_proba columns request)
      \<and> flood_probability (predict predict_proba columns request) \<le> 1 \<longrightarrow>
      confidence (predict predict_proba columns request)
        = Finite (\<bar>flood_probability (predict predict_proba columns request) - 0.5\<bar> * 2))
   \<and> confidence (predict (fixed_classifier 0.5) columns request) = Finite 0
   \<and> confidence (predict (fixed_classifier 0) columns request) = Finite 1
   \<and> confidence (predict (fixed_classifier 1) columns request) = Finite 1
   \<and> (is_double p \<and> is_double (1 - p) \<and> 0 \<le> p \<and> p \<le> 1 \<longrightarrow>
        confidence (predict (fixed_classifier (1 - p)) columns request)
          = confidence (predict (fixed_classifier p) columns request))
   \<and> (is_double p \<and> 0.5 \<le> p \<and> p \<le> 1 \<longrightarrow>
        fsub (Finite 1) (Finite p) = Finite (1 - p)
        \<and> confidence (predict (fixed_classifier (1 - p)) columns request)
            = confidence (predict (fixed_classifier p) columns request))"
proof (intro conjI impI)
  let ?fp = "flood_probability (predict predict_proba columns request)"
  show "\<exists>c. confidence (predict predict_proba columns request) = Finite c
      \<and> \<bar>c - \<bar>?fp - 0.5\<bar> * 2\<bar> \<le> 1 / 2 ^ 54"
    if "0 \<le> ?fp \<and> ?fp \<le> 1"
    using that score_error [of ?fp] by (simp add: predict_confidence_eq)
  show "confidence (predict predict_proba columns request) = Finite (\<bar>?fp - 0.5\<bar> * 2)"
    if "is_double ?fp \<and> 0.25 \<le> ?fp \<and> ?fp \<le> 1"
    using that score_upper_range [of ?fp] by (simp add: predict_confidence_eq)
next
  have "fmul (fabs (fsub (Finite (1/2)) (Finite (1/2)))) (Finite 2) = Finite (\<bar>1/2 - 1/2\<bar> * 2)"
    by (rule score_upper_range) (simp_all add: is_double_quarters)
  then show "confidence (predict (fixed_classifier 0.5) columns request) = Finite 0"
    by (simp add: predict_fixed)
next
  have "fmul (fabs (fsub (Finite (1 - 1)) (Finite (1/2)))) (Finite 2) = Finite (\<bar>1 - 1/2\<bar> * 2)"
    by (rule score_mirror) (simp_all add: is_double_quarters)
  then show "confidence (predict (fixed_classifier 0) columns request) = Finite 1"
    by (simp add: predict_fixed)
next
  have "fmul (fabs (fsub (Finite 1) (Finite (1/2)))) (Finite 2) = Finite (\<bar>1 - 1/2\<bar> * 2)"
    by (rule score_upper_range) (simp_all add: is_double_quarters)
  then show "confidence (predict (fixed_classifier 1) columns request) = Finite 1"
    by (simp add: predict_fixed)
next
  assume "is_double p \<and> is_double (1 - p) \<and> 0 \<le> p \<and> p \<le> 1"
  then show "confidence (predict (fixed_classifier (1 - p)) columns request)
      = confidence (predict (fixed_classifier p) columns request)"
    using score_symmetric [of p] by (simp add: predict_fixed)
next
  assume a: "is_double p \<and> 0.5 \<le> p \<and> p \<le> 1"
  then show "fsub (Finite 1) (Finite p) = Finite (1 - p)"
    using complement_exact [of p] by simp
  from a have "fmul (fabs (fsub (Finite p) (Finite (1/2)))) (Finite 2) = Finite (\<bar>p - 1/2\<bar> * 2)"
    using score_upper_range [of p] by simp
  moreover from a
  have "fmul (fabs (fsub (Finite (1 - p)) (Finite (1/2)))) (Finite 2) = Finite (\<bar>p - 1/2\<bar> * 2)"
    using score_mirror [of p] by simp
  ultimately show "confidence (predict (fixed_classifier (1 - p)) columns request)
      = confidence (predict (fixed_classifier p) columns request)"
    by (simp add: predict_fixed)
qed

theorem predict_confidence_rounded_witness:
  "is_double double_0_7 \<and> 0.25 \<le> double_0_7 \<and> 0.5 \<le> double_0_7 \<and> 0 \<le> double_0_7
   \<and> double_0_7 \<le> 1 \<and> is_double (1 - double_0_7)
   \<and> confidence (predict (fixed_classifier double_0_7) feature_names example_request)
       = Finite (900719925474099 / 2 ^ 51)
   \<and> fsub (Finite 1) (Finite double_0_7) = Finite (1351079888211149 / 2 ^ 52)
   \<and> confidence (predict (fixed_classifier (1 - double_0_7)) feature_names example_request)
       = Finite (900719925474099 / 2 ^ 51)"
proof -
  have d: "is_double double_0_7" by (rule is_double_0_7)
  have e: "is_double (1 - double_0_7)"
    by (rule is_double_gridI [where n = 1351079888211149 and j = "- 52"])
      (simp_all add: double_0_7_def)
  have b: "0.25 \<le> double_0_7" "0.5 \<le> double_0_7" "0 \<le> double_0_7" "double_0_7 \<le> 1"
    by (simp_all add: double_0_7_def)
  have f: "flood_probability (predict (fixed_classifier double_0_7) feature_names example_request)
      = double_0_7" by (rule predict_fixed)
  have v: "\<bar>double_0_7 - 0.5\<bar> * 2 = 900719925474099 / 2 ^ 51" "1 - double_0_7 = 1351079888211149 / 2 ^ 52"
    by (simp_all add: double_0_7_def)
  from predict_confidence_rounded
    [of "fixed_classifier double_0_7" feature_names example_request double_0_7] d e b
  show ?thesis
    by (simp only: f v simp_thms)
qed

text \<open>
  Claim C5. A flood is predicted exactly when the flood probability is at least 0.5,
  for every classifier and request. The threshold is not one of the tier boundaries: at
  0.4 and at 0.55 the tier is Medium, with no flood predicted at 0.4 and a flood
  predicted at 0.55.
\<close>

theorem predict_is_flood_predicted:
  "is_flood_predicted (predict predict_proba columns request)
     = (flood_probability (predict predict_proba columns request) \<ge> 0.5)
   \<and> is_flood_predicted (predict (\<lambda>df. (1 - p, p)) columns request) = (p \<ge> 0.5)
   \<and> risk_level (predict (\<lambda>df. (0.6, 0.4)) columns request) = Medium
   \<and> \<not> is_flood_predicted (predict (\<lambda>df. (0.6, 0.4)) columns request)
   \<and> risk_level (predict (\<lambda>df. (0.45, 0.55)) columns request) = Medium
   \<and> is_flood_predicted (predict (\<lambda>df. (0.45, 0.55)) columns request)"
  by (simp add: predict_def Let_def calculate_risk_level_def)

section \<open>Properties of the weather aggregation\<close>

text \<open>Zero days in front of the history add nothing to a window.\<close>

lemma trailing_sum_drop: "trailing_sum n samples = sum_list (drop (length samples - n) samples)"
  by (cases "length samples < n")
    (simp_all add: trailing_sum_def pad_history_def sum_list_replicate)

lemma trailing_sum_leading_zeros:
  "trailing_sum n (replicate k 0 @ samples) = trailing_sum n samples"
proof -
  have "k + length samples - n - k = length samples - n"
    by arith
  then show ?thesis
    by (simp add: trailing_sum_drop sum_list_replicate)
qed

lemma last_day_leading_zeros:
  "last (pad_history 1 (replicate k 0 @ samples)) = last (pad_history 1 samples)"
  by (cases samples; cases k) (simp_all add: pad_history_def)

text \<open>
  Claim C7. For fourteen daily samples \<open>d0 .. d13\<close>, most recent last, the live
  aggregation gives \<open>precip_1d = d13\<close>, \<open>precip_3d = d11 + d12 + d13\<close>,
  \<open>precip_7d = d7 + .. + d13\<close> and \<open>precip_14d = d0 + .. + d13\<close>. A shorter history
  gives what the same history gives with zero days put in front of it up to fourteen
  days; on an empty history all four are zero, on two days the three sums are the sum of
  the two. The aggregation has no failing branch.
\<close>

theorem live_aggregation_windows:
  "live_aggregation elev [d0, d1, d2, d3, d4, d5, d6, d7, d8, d9, d10, d11, d12, d13] =
     [(''elevation'', elev),
      (''precip_1d'', d13),
      (''precip_3d'', d11 + d12 + d13),
      (''precip_7d'', d7 + d8 + d9 + d10 + d11 + d12 + d13),
      (''precip_14d'', d0 + d1 + d2 + d3 + d4 + d5 + d6 + d7 + d8 + d9 + d10 + d11 + d12 + d13)]
   \<and> live_aggregation elev samples
       = live_aggregation elev (replicate (14 - length samples) 0 @ samples)
   \<and> live_aggregation elev [] =
       [(''elevation'', elev), (''precip_1d'', 0), (''precip_3d'', 0), (''precip_7d'', 0),
        (''precip_14d'', 0)]
   \<and> live_aggregation elev [a, b] =
       [(''elevation'', elev), (''precip_1d'', b), (''precip_3d'', a + b),
        (''precip_7d'', a + b), (''precip_14d'', a + b)]"
proof (intro conjI)
  show "live_aggregation elev [d0, d1, d2, d3, d4, d5, d6, d7, d8, d9, d10, d11, d12, d13] =
     [(''elevation'', elev),
      (''precip_1d'', d13),
      (''precip_3d'', d11 + d12 + d13),
      (''precip_7d'', d7 + d8 + d9 + d10 + d11 + d12 + d13),
      (''precip_14d'', d0 + d1 + d2 + d3 + d4 + d5 + d6 + d7 + d8 + d9 + d10 + d11 + d12 + d13)]"
    by (simp add: live_aggregation_def trailing_sum_drop pad_history_def)
  show "live_aggregation elev samples
       = live_aggregation elev (replicate (14 - length samples) 0 @ samples)"
    unfolding live_aggregation_def
    by (simp only: trailing_sum_leading_zeros last_day_leading_zeros)
  show "live_aggregation elev [] =
       [(''elevation'', elev), (''precip_1d'', 0), (''precip_3d'', 0), (''precip_7d'', 0),
        (''precip_14d'', 0)]"
    by (simp add: live_aggregation_def trailing_sum_drop pad_history_def)
  show "live_aggregation elev [a, b] =
       [(''elevation'', elev), (''precip_1d'', b), (''precip_3d'', a + b),
        (''precip_7d'', a + b), (''precip_14d'', a + b)]"
    by (simp add: live_aggregation_def trailing_sum_drop pad_history_def)
qed

lemma length_history_days: "length (history_days today) = 30"
  by (simp add: history_days_def)

lemma history_days_nth: "k < 30 \<Longrightarrow> history_days today ! k = today - 29 + int k"
  by (simp add: history_days_def)

lemma sorted_history_days: "sorted_wrt (<) (history_days today)"
  by (simp add: history_days_def sorted_wrt_map sorted_wrt_iff_nth_less)

lemma length_historical_series: "length (historical_series provider today) = 30"
  by (simp add: historical_series_def length_history_days)

lemma historical_series_nth:
  "k < 30 \<Longrightarrow>
     historical_series provider today ! k = (today - 29 + int k, provider (today - 29 + int k))"
  by (simp add: historical_series_def length_history_days history_days_nth)

text \<open>
  Claim C8. The historical series has exactly 30 entries and so has each of the arrays
  of dates, precipitation and temperature. The dates increase strictly, from 29 days
  before today at index 0 to today at index 29. A day the provider has no sample for is
  flagged in both value arrays and keeps its place; a day it has a sample for carries
  that sample's values.
\<close>

theorem historical_series_thirty:
  "length (historical_series provider today) = 30
   \<and> length (history_dates provider today) = 30
   \<and> length (history_precipitation provider today) = 30
   \<and> length (history_temperature provider today) = 30
   \<and> sorted_wrt (<) (history_dates provider today)
   \<and> history_dates provider today ! 0 = today - 29
   \<and> history_dates provider today ! 29 = today
   \<and> (\<forall>k < 30. history_dates provider today ! k = today - 29 + int k)
   \<and> (\<forall>k < 30. provider (today - 29 + int k) = None \<longrightarrow>
         history_precipitation provider today ! k = None
         \<and> history_temperature provider today ! k = None)
   \<and> (\<forall>k < 30. \<forall>s. provider (today - 29 + int k) = Some s \<longrightarrow>
         history_precipitation provider today ! k = Some (sample_precipitation s)
         \<and> history_temperature provider today ! k = Some (sample_temperature s))"
proof (intro conjI allI impI)
  show "length (historical_series provider today) = 30"
    by (rule length_historical_series)
  show "length (history_dates provider today) = 30"
    by (simp add: history_dates_def length_historical_series)
  show "length (history_precipitation provider today) = 30"
    by (simp add: history_precipitation_def length_historical_series)
  show "length (history_temperature provider today) = 30"
    by (simp add: history_temperature_def length_historical_series)
  have dates: "history_dates provider today = history_days today"
    by (simp add: history_dates_def historical_series_def comp_def)
  show "sorted_wrt (<) (history_dates provider today)"
    by (simp add: dates sorted_history_days)
  show "history_dates provider today ! 0 = today - 29"
    by (simp add: dates history_days_nth)
  show "history_dates provider today ! 29 = today"
    by (simp add: dates history_days_nth)
  show "history_dates provider today ! k = today - 29 + int k" if "k < 30" for k
    using that by (simp add: dates history_days_nth)
  show "history_precipitation provider today ! k = None"
    if "k < 30" "provider (today - 29 + int k) = None" for k
    using that
    by (simp add: history_precipitation_def length_historical_series historical_series_nth)
  show "history_temperature provider today ! k = None"
    if "k < 30" "provider (today - 29 + int k) = None" for k
    using that
    by (simp add: history_temperature_def length_historical_series historical_series_nth)
  show "history_precipitation provider today ! k = Some (sample_precipitation s)"
    if "k < 30" "provider (today - 29 + int k) = Some s" for k s
    using that
    by (simp add: history_precipitation_def length_historical_series historical_series_nth)
  show "history_temperature provider today ! k = Some (sample_temperature s)"
    if "k < 30" "provider (today - 29 + int k) = Some s" for k s
    using that
    by (simp add: history_temperature_def length_historical_series historical_series_nth)
qed

theorem historical_series_thirty_witness:
  "(24::nat) < 30
   \<and> sparse_provider (100 - 29 + int 24)
       = Some \<lparr>sample_precipitation = 12, sample_temperature = 31\<rparr>
   \<and> history_dates sparse_provider 100 ! 24 = 95
   \<and> history_precipitation sparse_provider 100 ! 24 = Some 12
   \<and> history_temperature sparse_provider 100 ! 24 = Some 31
   \<and> (0::nat) < 30
   \<and> sparse_provider (100 - 29 + int 0) = None
   \<and> history_dates sparse_provider 100 ! 0 = 71
   \<and> history_precipitation sparse_provider 100 ! 0 = None
   \<and> history_temperature sparse_provider 100 ! 0 = None
   \<and> length (history_precipitation sparse_provider 100) = 30"
proof -
  have a: "sparse_provider (100 - 29 + int 24)
       = Some \<lparr>sample_precipitation = 12, sample_temperature = 31\<rparr>"
    by (simp add: sparse_provider_def)
  have b: "sparse_provider (100 - 29 + int 0) = None"
    by (simp add: sparse_provider_def)
  from historical_series_thirty [of sparse_provider 100] a b
  show ?thesis
    by simp
qed

section \<open>Properties of the prediction form\<close>

lemma truthy_iff:
  "truthy v \<longleftrightarrow>
     \<not> (v = Undefined \<or> v = Null \<or> v = JBool False \<or> v = JNumber (Finite 0)
        \<or> v = JNumber NaN \<or> v = JString [])"
proof (cases v)
  case (JNumber x)
  then show ?thesis by (cases x) simp_all
qed simp_all

lemma js_or_cases:
  "js_or v w =
     (if v = Undefined \<or> v = Null \<or> v = JBool False \<or> v = JNumber (Finite 0)
         \<or> v = JNumber NaN \<or> v = JString [] then w else v)"
  by (simp only: js_or_def truthy_iff) simp

text \<open>
  Claim C9. After a historical date is selected, the four precipitation fields all hold
  the entry's precipitation and the other seven fields, \<open>date\<close> and \<open>dayofyear\<close> apart,
  are as before. When the entry's date is valid, with time \<open>t\<close>, and its year starts at
  \<open>start\<close>, \<open>date\<close> and \<open>dayofyear\<close> both hold the number of whole days in
  \<open>t - start\<close>, rounded down; when the date is invalid they both hold \<open>NaN\<close>.
\<close>

theorem handleHistoricalDateSelect_effect:
  "precip_1d (handleHistoricalDateSelect api entry prev) = precipitation entry
   \<and> precip_3d (handleHistoricalDateSelect api entry prev) = precipitation entry
   \<and> precip_7d (handleHistoricalDateSelect api entry prev) = precipitation entry
   \<and> precip_14d (handleHistoricalDateSelect api entry prev) = precipitation entry
   \<and> (\<forall>t start. getTime api (entry_date entry) = Some t
          \<and> yearStart api (entry_date entry) = Some start \<longrightarrow>
        date (handleHistoricalDateSelect api entry prev)
          = JNumber (Finite (of_int ((t - start) div 86400000)))
        \<and> dayofyear (handleHistoricalDateSelect api entry prev)
          = JNumber (Finite (of_int ((t - start) div 86400000)))
        \<and> 86400000 * ((t - start) div 86400000) \<le> t - start
        \<and> t - start < 86400000 * ((t - start) div 86400000) + 86400000)
   \<and> (getTime api (entry_date entry) = None \<or> yearStart api (entry_date entry) = None \<longrightarrow>
        date (handleHistoricalDateSelect api entry prev) = JNumber NaN
        \<and> dayofyear (handleHistoricalDateSelect api entry prev) = JNumber NaN)
   \<and> date (handleHistoricalDateSelect api entry prev) = dayOfYear api (entry_date entry)
   \<and> dayofyear (handleHistoricalDateSelect api entry prev) = dayOfYear api (entry_date entry)
   \<and> lat (handleHistoricalDateSelect api entry prev) = lat prev
   \<and> lon (handleHistoricalDateSelect api entry prev) = lon prev
   \<and> elevation (handleHistoricalDateSelect api entry prev) = elevation prev
   \<and> slope (handleHistoricalDateSelect api entry prev) = slope prev
   \<and> landcover (handleHistoricalDateSelect api entry prev) = landcover prev
   \<and> dis_last (handleHistoricalDateSelect api entry prev) = dis_last prev
   \<and> dis_trend_3 (handleHistoricalDateSelect api entry prev) = dis_trend_3 prev
   \<and> dayOfYear \<lparr>getTime = (\<lambda>d. Some 1709251200000), yearStart = (\<lambda>d. Some 1703980800000)\<rparr>
        ''2024-03-01'' = JNumber (Finite 61)"
proof (intro conjI allI impI)
  fix t start
  assume a: "getTime api (entry_date entry) = Some t
    \<and> yearStart api (entry_date entry) = Some start"
  then show "date (handleHistoricalDateSelect api entry prev)
      = JNumber (Finite (of_int ((t - start) div 86400000)))"
    by (simp add: handleHistoricalDateSelect_def dayOfYear_def oneDay_def)
  from a show "dayofyear (handleHistoricalDateSelect api entry prev)
      = JNumber (Finite (of_int ((t - start) div 86400000)))"
    by (simp add: handleHistoricalDateSelect_def dayOfYear_def oneDay_def)
  show "86400000 * ((t - start) div 86400000) \<le> t - start" by simp
  show "t - start < 86400000 * ((t - start) div 86400000) + 86400000"
  proof -
    have "(t - start) mod 86400000 < 86400000" by simp
    moreover have "t - start = 86400000 * ((t - start) div 86400000) + (t - start) mod 86400000"
      by simp
    ultimately show ?thesis by linarith
  qed
next
  assume "getTime api (entry_date entry) = None \<or> yearStart api (entry_date entry) = None"
  then have "dayOfYear api (entry_date entry) = JNumber NaN"
    by (auto simp: dayOfYear_def split: option.splits)
  then show "date (handleHistoricalDateSelect api entry prev) = JNumber NaN"
    and "dayofyear (handleHistoricalDateSelect api entry prev) = JNumber NaN"
    by (simp_all add: handleHistoricalDateSelect_def)
qed (simp_all add: handleHistoricalDateSelect_def dayOfYear_def oneDay_def)

theorem handleHistoricalDateSelect_effect_witness:
  "getTime dhaka_dates (entry_date march_entry) = Some 1709251200000
   \<and> yearStart dhaka_dates (entry_date march_entry) = Some 1703959200000
   \<and> (1709251200000 - 1703959200000) div 86400000 = (61::int)
   \<and> (1709251200000 - 1703959200000) mod 86400000 = (21600000::int)
   \<and> date (handleHistoricalDateSelect dhaka_dates march_entry example_form) = JNumber (Finite 61)
   \<and> dayofyear (handleHistoricalDateSelect dhaka_dates march_entry example_form)
       = JNumber (Finite 61)
   \<and> getTime new_york_dates (entry_date march_entry) = Some 1709251200000
   \<and> yearStart new_york_dates (entry_date march_entry) = Some 1703998800000
   \<and> date (handleHistoricalDateSelect new_york_dates march_entry example_form)
       = JNumber (Finite 60)
   \<and> getTime dhaka_dates (entry_date broken_entry) = None
   \<and> date (handleHistoricalDateSelect dhaka_dates broken_entry example_form) = JNumber NaN
   \<and> dayofyear (handleHistoricalDateSelect dhaka_dates broken_entry example_form) = JNumber NaN
   \<and> precip_7d (handleHistoricalDateSelect dhaka_dates march_entry example_form)
       = JNumber (Finite 7.5)
   \<and> lat (handleHistoricalDateSelect dhaka_dates march_entry example_form)
       = JNumber (Finite 23.8103)"
proof -
  have a: "getTime dhaka_dates (entry_date march_entry) = Some 1709251200000"
    "yearStart dhaka_dates (entry_date march_entry) = Some 1703959200000"
    by (simp_all add: dhaka_dates_def march_entry_def)
  have b: "getTime new_york_dates (entry_date march_entry) = Some 1709251200000"
    "yearStart new_york_dates (entry_date march_entry) = Some 1703998800000"
    by (simp_all add: new_york_dates_def march_entry_def)
  have c: "getTime dhaka_dates (entry_date broken_entry) = None"
    by (simp add: dhaka_dates_def broken_entry_def)
  have d: "precipitation march_entry = JNumber (Finite 7.5)"
    "lat example_form = JNumber (Finite 23.8103)"
    by (simp_all add: march_entry_def example_form_def)
  from handleHistoricalDateSelect_effect [of dhaka_dates march_entry example_form]
    handleHistoricalDateSelect_effect [of new_york_dates march_entry example_form]
    handleHistoricalDateSelect_effect [of dhaka_dates broken_entry example_form]
    a b c d
  show ?thesis by simp
qed

lemma member_Some: "data k = Some v \<Longrightarrow> member data k = v"
  by (simp add: member_def)

lemma member_None: "data k = None \<Longrightarrow> member data k = Undefined"
  by (simp add: member_def)

lemma fetchLiveData_Inr:
  assumes "axios_get (lat (formData st)) (lon (formData st)) = Inr data"
  shows "formData (fetchLiveData axios_get st) =
     (formData st)
       \<lparr>elevation := member data ''elevation'',
        precip_1d := member data ''precip_1d'',
        precip_3d := member data ''precip_3d'',
        precip_7d := member data ''precip_7d'',
        precip_14d := member data ''precip_14d'',
        slope := js_or (member data ''slope'') (slope (formData st)),
        landcover := js_or (member data ''landcover'') (landcover (formData st)),
        dis_last := js_or (member data ''dis_last'') (dis_last (formData st)),
        dis_trend_3 := js_or (member data ''dis_trend_3'') (dis_trend_3 (formData st))\<rparr>"
  using assms by (simp add: fetchLiveData_def)

text \<open>
  Claim C10. When the request for the form's coordinates succeeds with the object
  \<open>data\<close>, \<open>elevation\<close> and the four precipitation fields take the members of \<open>data\<close>
  whatever they are (\<open>undefined\<close> for an absent member). Each of \<open>slope\<close>, \<open>landcover\<close>,
  \<open>dis_last\<close> and \<open>dis_trend_3\<close> takes the member of \<open>data\<close> unless it is absent or one
  of the falsy values \<open>undefined\<close>, \<open>null\<close>, \<open>false\<close>, 0, \<open>NaN\<close> and the empty string,
  in which case the form's value is kept. The coordinates and the two day fields are
  not touched.
\<close>

theorem fetchLiveData_success:
  "axios_get (lat (formData st)) (lon (formData st)) = Inr data \<longrightarrow>
     (\<forall>v. data ''elevation'' = Some v \<longrightarrow> elevation (formData (fetchLiveData axios_get st)) = v)
   \<and> (\<forall>v. data ''precip_1d'' = Some v \<longrightarrow> precip_1d (formData (fetchLiveData axios_get st)) = v)
   \<and> (\<forall>v. data ''precip_3d'' = Some v \<longrightarrow> precip_3d (formData (fetchLiveData axios_get st)) = v)
   \<and> (\<forall>v. data ''precip_7d'' = Some v \<longrightarrow> precip_7d (formData (fetchLiveData axios_get st)) = v)
   \<and> (\<forall>v. data ''precip_14d'' = Some v \<longrightarrow>
         precip_14d (formData (fetchLiveData axios_get st)) = v)
   \<and> (data ''elevation'' = None \<longrightarrow>
         elevation (formData (fetchLiveData axios_get st)) = Undefined)
   \<and> (data ''precip_1d'' = None \<longrightarrow>
         precip_1d (formData (fetchLiveData axios_get st)) = Undefined)
   \<and> (data ''precip_3d'' = None \<longrightarrow>
         precip_3d (formData (fetchLiveData axios_get st)) = Undefined)
   \<and> (data ''precip_7d'' = None \<longrightarrow>
         precip_7d (formData (fetchLiveData axios_get st)) = Undefined)
   \<and> (data ''precip_14d'' = None \<longrightarrow>
         precip_14d (formData (fetchLiveData axios_get st)) = Undefined)
   \<and> (\<forall>v. data ''slope'' = Some v \<longrightarrow>
         slope (formData (fetchLiveData axios_get st))
           = (if v = Undefined \<or> v = Null \<or> v = JBool False \<or> v = JNumber (Finite 0)
                 \<or> v = JNumber NaN \<or> v = JString [] then slope (formData st) else v))
   \<and> (\<forall>v. data ''landcover'' = Some v \<longrightarrow>
         landcover (formData (fetchLiveData axios_get st))
           = (if v = Undefined \<or> v = Null \<or> v = JBool False \<or> v = JNumber (Finite 0)
                 \<or> v = JNumber NaN \<or> v = JString [] then landcover (formData st) else v))
   \<and> (\<forall>v. data ''dis_last'' = Some v \<longrightarrow>
         dis_last (formData (fetchLiveData axios_get st))
           = (if v = Undefined \<or> v = Null \<or> v = JBool False \<or> v = JNumber (Finite 0)
                 \<or> v = JNumber NaN \<or> v = JString [] then dis_last (formData st) else v))
   \<and> (\<forall>v. data ''dis_trend_3'' = Some v \<longrightarrow>
         dis_trend_3 (formData (fetchLiveData axios_get st))
           = (if v = Undefined \<or> v = Null \<or> v = JBool False \<or> v = JNumber (Finite 0)
                 \<or> v = JNumber NaN \<or> v = JString [] then dis_trend_3 (formData st) else v))
   \<and> (data ''slope'' = None \<longrightarrow>
         slope (formData (fetchLiveData axios_get st)) = slope (formData st))
   \<and> (data ''landcover'' = None \<longrightarrow>
         landcover (formData (fetchLiveData axios_get st)) = landcover (formData st))
   \<and> (data ''dis_last'' = None \<longrightarrow>
         dis_last (formData (fetchLiveData axios_get st)) = dis_last (formData st))
   \<and> (data ''dis_trend_3'' = None \<longrightarrow>
         dis_trend_3 (formData (fetchLiveData axios_get st)) = dis_trend_3 (formData st))
   \<and> lat (formData (fetchLiveData axios_get st)) = lat (formData st)
   \<and> lon (formData (fetchLiveData axios_get st)) = lon (formData st)
   \<and> date (formData (fetchLiveData axios_get st)) = date (formData st)
   \<and> dayofyear (formData (fetchLiveData axios_get st)) = dayofyear (formData st)"
proof (intro impI)
  assume "axios_get (lat (formData st)) (lon (formData st)) = Inr data"
  then have f: "formData (fetchLiveData axios_get st) =
     (formData st)
       \<lparr>elevation := member data ''elevation'',
        precip_1d := member data ''precip_1d'',
        precip_3d := member data ''precip_3d'',
        precip_7d := member data ''precip_7d'',
        precip_14d := member data ''precip_14d'',
        slope := js_or (member data ''slope'') (slope (formData st)),
        landcover := js_or (member data ''landcover'') (landcover (formData st)),
        dis_last := js_or (member data ''dis_last'') (dis_last (formData st)),
        dis_trend_3 := js_or (member data ''dis_trend_3'') (dis_trend_3 (formData st))\<rparr>"
    by (rule fetchLiveData_Inr)
  have absent: "js_or Undefined w = w" for w by (simp add: js_or_def)
  show "(\<forall>v. data ''elevation'' = Some v \<longrightarrow> elevation (formData (fetchLiveData axios_get st)) = v)
   \<and> (\<forall>v. data ''precip_1d'' = Some v \<longrightarrow> precip_1d (formData (fetchLiveData axios_get st)) = v)
   \<and> (\<forall>v. data ''precip_3d'' = Some v \<longrightarrow> precip_3d (formData (fetchLiveData axios_get st)) = v)
   \<and> (\<forall>v. data ''precip_7d'' = Some v \<longrightarrow> precip_7d (formData (fetchLiveData axios_get st)) = v)
   \<and> (\<forall>v. data ''precip_14d'' = Some v \<longrightarrow>
         precip_14d (formData (fetchLiveData axios_get st)) = v)
   \<and> (data ''elevation'' = None \<longrightarrow>
         elevation (formData (fetchLiveData axios_get st)) = Undefined)
   \<and> (data ''precip_1d'' = None \<longrightarrow>
         precip_1d (formData (fetchLiveData axios_get st)) = Undefined)
   \<and> (data ''precip_3d'' = None \<longrightarrow>
         precip_3d (formData (fetchLiveData axios_get st)) = Undefined)
   \<and> (data ''precip_7d'' = None \<longrightarrow>
         precip_7d (formData (fetchLiveData axios_get st)) = Undefined)
   \<and> (data ''precip_14d'' = None \<longrightarrow>
         precip_14d (formData (fetchLiveData axios_get st)) = Undefined)
   \<and> (\<forall>v. data ''slope'' = Some v \<longrightarrow>
         slope (formData (fetchLiveData axios_get st))
           = (if v = Undefined \<or> v = Null \<or> v = JBool False \<or> v = JNumber (Finite 0)
                 \<or> v = JNumber NaN \<or> v = JString [] then slope (formData st) else v))
   \<and> (\<forall>v. data ''landcover'' = Some v \<longrightarrow>
         landcover (formData (fetchLiveData axios_get st))
           = (if v = Undefined \<or> v = Null \<or> v = JBool False \<or> v = JNumber (Finite 0)
                 \<or> v = JNumber NaN \<or> v = JString [] then landcover (formData st) else v))
   \<and> (\<forall>v. data ''dis_last'' = Some v \<longrightarrow>
         dis_last (formData (fetchLiveData axios_get st))
           = (if v = Undefined \<or> v = Null \<or> v = JBool False \<or> v = JNumber (Finite 0)
                 \<or> v = JNumber NaN \<or> v = JString [] then dis_last (formData st) else v))
   \<and> (\<forall>v. data ''dis_trend_3'' = Some v \<longrightarrow>
         dis_trend_3 (formData (fetchLiveData axios_get st))
           = (if v = Undefined \<or> v = Null \<or> v = JBool False \<or> v = JNumber (Finite 0)
                 \<or> v = JNumber NaN \<or> v = JString [] then dis_trend_3 (formData st) else v))
   \<and> (data ''slope'' = None \<longrightarrow>
         slope (formData (fetchLiveData axios_get st)) = slope (formData st))
   \<and> (data ''landcover'' = None \<longrightarrow>
         landcover (formData (fetchLiveData axios_get st)) = landcover (formData st))
   \<and> (data ''dis_last'' = None \<longrightarrow>
         dis_last (formData (fetchLiveData axios_get st)) = dis_last (formData st))
   \<and> (data ''dis_trend_3'' = None \<longrightarrow>
         dis_trend_3 (formData (fetchLiveData axios_get st)) = dis_trend_3 (formData st))
   \<and> lat (formData (fetchLiveData axios_get st)) = lat (formData st)
   \<and> lon (formData (fetchLiveData axios_get st)) = lon (formData st)
   \<and> date (formData (fetchLiveData axios_get st)) = date (formData st)
   \<and> dayofyear (formData (fetchLiveData axios_get st)) = dayofyear (formData st)"
    unfolding f
    by (intro conjI allI impI)
      (simp_all add: member_Some member_None absent js_or_cases)
qed

theorem fetchLiveData_success_witness:
  "live_server (lat (formData example_state)) (lon (formData example_state)) = Inr live_response
   \<and> live_response ''elevation'' = Some (JNumber (Finite 0))
   \<and> elevation (formData (fetchLiveData live_server example_state)) = JNumber (Finite 0)
   \<and> live_response ''precip_1d'' = Some (JNumber (Finite 3.5))
   \<and> precip_1d (formData (fetchLiveData live_server example_state)) = JNumber (Finite 3.5)
   \<and> live_response ''precip_14d'' = None
   \<and> precip_14d (formData (fetchLiveData live_server example_state)) = Undefined
   \<and> live_response ''slope'' = Some (JNumber (Finite 1.5))
   \<and> slope (formData example_state) = JNumber (Finite 0.5)
   \<and> slope (formData (fetchLiveData live_server example_state)) = JNumber (Finite 1.5)
   \<and> live_response ''landcover'' = Some (JNumber (Finite 0))
   \<and> landcover (formData (fetchLiveData live_server example_state)) = JNumber (Finite 11)
   \<and> live_response ''dis_last'' = None
   \<and> dis_last (formData (fetchLiveData live_server example_state)) = JNumber (Finite 1500)
   \<and> live_response ''dis_trend_3'' = Some Null
   \<and> dis_trend_3 (formData (fetchLiveData live_server example_state)) = JNumber (Finite 100)"
proof -
  have a: "live_server (lat (formData example_state)) (lon (formData example_state))
      = Inr live_response"
    by (simp add: live_server_def example_state_def example_form_def)
  have b: "live_response ''elevation'' = Some (JNumber (Finite 0))"
    "live_response ''precip_1d'' = Some (JNumber (Finite 3.5))"
    "live_response ''precip_14d'' = None"
    "live_response ''slope'' = Some (JNumber (Finite 1.5))"
    "live_response ''landcover'' = Some (JNumber (Finite 0))"
    "live_response ''dis_last'' = None"
    "live_response ''dis_trend_3'' = Some Null"
    by (simp_all add: live_response_def)
  have c: "slope (formData example_state) = JNumber (Finite 0.5)"
    "landcover (formData example_state) = JNumber (Finite 11)"
    "dis_last (formData example_state) = JNumber (Finite 1500)"
    "dis_trend_3 (formData example_state) = JNumber (Finite 100)"
    by (simp_all add: example_state_def example_form_def)
  from fetchLiveData_success [of live_server example_state live_response] a b c
  show ?thesis by simp
qed

text \<open>When the request fails the form data are as before.\<close>

lemma fetchLiveData_failure:
  "formData (fetchLiveData (\<lambda>la lo. Inl e) st) = formData st"
  by (simp add: fetchLiveData_def)

end
